theory Spec2Isabelle
  imports Complex_Main "HOL-Library.Multiset" "HOL-Library.Product_Lexorder"
    "HOL-Library.List_Lexorder" "HOL-Library.Char_ord" "HOL-Library.Word"
begin

section \<open>Numeric cells of a table\<close>

text \<open>
  A numeric cell of a pandas table is a float or the null value NaN.  The model is
  \<open>real option\<close>: \<open>Some x\<close> is the number \<open>x\<close>, \<open>None\<close> is NaN.  Arithmetic is exact
  (binary rounding is not modelled) and NaN is absorbing, as in numpy.  A comparison with
  NaN is false, except \<open>!=\<close>, which is true.
\<close>

type_synonym num = "real option"

definition fadd :: "num \<Rightarrow> num \<Rightarrow> num" where
  "fadd a b = (case a of None \<Rightarrow> None | Some x \<Rightarrow> (case b of None \<Rightarrow> None | Some y \<Rightarrow> Some (x + y)))"

definition fsub :: "num \<Rightarrow> num \<Rightarrow> num" where
  "fsub a b = (case a of None \<Rightarrow> None | Some x \<Rightarrow> (case b of None \<Rightarrow> None | Some y \<Rightarrow> Some (x - y)))"

definition fmul :: "num \<Rightarrow> num \<Rightarrow> num" where
  "fmul a b = (case a of None \<Rightarrow> None | Some x \<Rightarrow> (case b of None \<Rightarrow> None | Some y \<Rightarrow> Some (x * y)))"

text \<open>
  Division.  For a zero divisor numpy yields \<open>+inf\<close> or \<open>-inf\<close> (non-zero numerator) or NaN
  (zero numerator), never an exception.  The model has no infinities: the result of a
  division by zero is \<open>None\<close>, to be read there as "not a finite number".  Only one
  formula below can select such a quotient, \<open>pressure_resilience\<close>, and no other formula
  reads its result; the reciprocal term of \<open>buy_low_score\<close>, where the infinity is clipped,
  is written out where it occurs.
\<close>

definition fdiv :: "num \<Rightarrow> num \<Rightarrow> num" where
  "fdiv a b = (case a of None \<Rightarrow> None | Some x \<Rightarrow>
     (case b of None \<Rightarrow> None | Some y \<Rightarrow> if y = 0 then None else Some (x / y)))"

definition flt :: "num \<Rightarrow> num \<Rightarrow> bool" where
  "flt a b = (case a of None \<Rightarrow> False | Some x \<Rightarrow> (case b of None \<Rightarrow> False | Some y \<Rightarrow> x < y))"

definition fle :: "num \<Rightarrow> num \<Rightarrow> bool" where
  "fle a b = (case a of None \<Rightarrow> False | Some x \<Rightarrow> (case b of None \<Rightarrow> False | Some y \<Rightarrow> x \<le> y))"

definition fgt :: "num \<Rightarrow> num \<Rightarrow> bool" where
  "fgt a b = flt b a"

definition fge :: "num \<Rightarrow> num \<Rightarrow> bool" where
  "fge a b = fle b a"

definition fillna :: "real \<Rightarrow> num \<Rightarrow> num" where
  "fillna d a = (case a of None \<Rightarrow> Some d | Some x \<Rightarrow> Some x)"

text \<open>\<open>Series.replace(0, 1)\<close>: only the value 0 is replaced; NaN stays NaN.\<close>

definition replace0 :: "num \<Rightarrow> num" where
  "replace0 a = (if a = Some 0 then Some 1 else a)"

definition clip_lower :: "real \<Rightarrow> num \<Rightarrow> num" where
  "clip_lower lo a = (case a of None \<Rightarrow> None | Some x \<Rightarrow> Some (max lo x))"

definition clip :: "real \<Rightarrow> real \<Rightarrow> num \<Rightarrow> num" where
  "clip lo hi a = (case a of None \<Rightarrow> None | Some x \<Rightarrow> Some (min hi (max lo x)))"

section \<open>Series statistics\<close>

text \<open>
  \<open>Series.mean\<close> and \<open>Series.std\<close> skip NaN.  The mean of no value is NaN; the standard
  deviation is the sample one (\<open>ddof = 1\<close>), NaN for fewer than two values.  Both are
  computed here over the reals.  In double precision the mean of three or more equal
  values can differ from them in the last bit, so that the deviation of such a group is
  tiny but not 0; nothing below relies on the deviation of a constant group of more than
  two members.
\<close>

fun dropna :: "num list \<Rightarrow> real list" where
  "dropna [] = []"
| "dropna (None # xs) = dropna xs"
| "dropna (Some x # xs) = x # dropna xs"

definition series_mean :: "num list \<Rightarrow> num" where
  "series_mean xs = (let v = dropna xs in
     if v = [] then None else Some (sum_list v / real (length v)))"

definition series_std :: "num list \<Rightarrow> num" where
  "series_std xs = (let v = dropna xs; n = length v in
     if n < 2 then None
     else (let m = sum_list v / real n in
       Some (sqrt (sum_list (map (\<lambda>x. (x - m)\<^sup>2) v) / real (n - 1)))))"

text \<open>
  The transform \<^verbatim>\<open>lambda x: (x - x.mean()) / (x.std() if x.std() != 0 else 1)\<close>, at one
  member \<open>x\<close> of the group \<open>g\<close>.  \<open>NaN != 0\<close> is true, so a NaN deviation is kept as the
  divisor.
\<close>

definition zscore_divisor :: "num list \<Rightarrow> num" where
  "zscore_divisor g = (if series_std g \<noteq> Some 0 then series_std g else Some 1)"

definition zscore :: "num list \<Rightarrow> num \<Rightarrow> num" where
  "zscore g x = fdiv (fsub x (series_mean g)) (zscore_divisor g)"

text \<open>The sign-inverted variant \<^verbatim>\<open>(x.mean() - x) / (...)\<close> of \<open>norm_ypa_decline\<close>.\<close>

definition zscore_inverted :: "num list \<Rightarrow> num \<Rightarrow> num" where
  "zscore_inverted g x = fdiv (fsub (series_mean g) x) (zscore_divisor g)"

section \<open>Player-season rows\<close>

text \<open>
  The columns of the fused table that the trajectory module, the composite metric engine
  and the candidate filters read, and the four columns that \<open>add_trajectory_metrics\<close>
  writes.
\<close>

record player_row =
  player_id :: string
  season :: int
  position :: string
  games :: num
  carries :: num
  rushing_yards :: num
  targets :: num
  receiving_yards :: num
  receiving_air_yards :: num
  target_share :: num
  team_attempts :: num
  fantasy_points_per_game :: num
  fantasy_points_half_ppr :: num
  season_age :: num
  draft_round :: num
  rush_yac_att :: num
  draft_pick_num :: num
  attempts :: num
  passing_epa :: num
  pressure_pct :: num
  rpo_rush_att :: num
  scrambles :: num
  receptions :: num
  rushing_tds :: num
  receiving_tds :: num
  rush_ybc_att :: num
  rush_brk_tkl :: num
  rush_x1d :: num
  rec_adot :: num
  rec_ybc_r :: num
  rec_yac_r :: num
  rec_brk_tkl :: num
  rec_x1d :: num
  is_catchable_ball :: num
  is_contested_ball :: num
  team_carries :: num
  team_receptions :: num
  team_receiving_yards :: num
  team_receiving_tds :: num
  raw_per_touch_yards :: num
  prev_efficiency :: num
  efficiency_delta :: num
  norm_trajectory :: num

section \<open>Trajectory module: \<open>add_trajectory_metrics\<close>\<close>

text \<open>
  \<^verbatim>\<open>np.where(position == 'RB', rushing_yards / carries.replace(0, 1),
                                  receiving_yards / targets.replace(0, 1))\<close>
\<close>

definition per_touch_yards :: "player_row \<Rightarrow> num" where
  "per_touch_yards r =
     (if position r = ''RB'' then fdiv (rushing_yards r) (replace0 (carries r))
      else fdiv (receiving_yards r) (replace0 (targets r)))"

text \<open>
  \<open>groupby(key)[col].shift(1)\<close>: every row receives the value of the previous row of its
  own group, in table order, and NaN when it is the first row of the group.  The map
  \<open>seen\<close> holds the latest value of each group met so far.
\<close>

fun groupby_shift :: "('k \<rightharpoonup> num) \<Rightarrow> ('k \<times> num) list \<Rightarrow> num list" where
  "groupby_shift seen [] = []"
| "groupby_shift seen ((k, v) # rest) =
     (case seen k of None \<Rightarrow> None | Some p \<Rightarrow> p) # groupby_shift (seen(k \<mapsto> v)) rest"

text \<open>
  \<open>sort_values(['player_id', 'season'])\<close>: a sort on several keys is the stable
  lexicographic sort of the key tuples.
\<close>

definition sort_player_season :: "player_row list \<Rightarrow> player_row list" where
  "sort_player_season df = sort_key (\<lambda>r. (player_id r, season r)) df"

definition set_raw :: "player_row \<Rightarrow> player_row" where
  "set_raw r = r\<lparr>raw_per_touch_yards := per_touch_yards r\<rparr>"

definition set_delta :: "player_row \<Rightarrow> num \<Rightarrow> player_row" where
  "set_delta r p = r\<lparr>prev_efficiency := p,
                      efficiency_delta := fsub (raw_per_touch_yards r) p\<rparr>"

definition set_norm_trajectory :: "player_row list \<Rightarrow> player_row \<Rightarrow> player_row" where
  "set_norm_trajectory tbl r =
     r\<lparr>norm_trajectory :=
         zscore (map efficiency_delta
                   (filter (\<lambda>q. position q = position r \<and> season q = season r) tbl))
                (efficiency_delta r)\<rparr>"

text \<open>The shifted column of a table, from the rates of its rows.\<close>

definition shifted :: "player_row list \<Rightarrow> num list" where
  "shifted s0 = groupby_shift Map.empty (map (\<lambda>r. (player_id r, per_touch_yards r)) s0)"

definition add_trajectory_metrics :: "player_row list \<Rightarrow> player_row list" where
  "add_trajectory_metrics df =
     (let s0 = sort_player_season df;
          s1 = map set_raw s0;
          prevs = groupby_shift Map.empty (map (\<lambda>r. (player_id r, raw_per_touch_yards r)) s1);
          s2 = map (\<lambda>(r, p). set_delta r p) (zip s1 prevs)
      in map (set_norm_trajectory s2) s2)"

section \<open>Composite metric engine: \<open>calculate_composite_metrics\<close>\<close>

text \<open>
  A table is its column names and its rows.  \<open>calculate_composite_metrics\<close> consults the
  column names twice before it computes anything: for \<^verbatim>\<open>df["games"]\<close> in the row filter
  (a missing column raises \<open>KeyError\<close>), and for the seven team aggregates (\<open>ValueError\<close>
  with the list of the missing ones).  The other columns that the formulas read are
  taken to be present and are carried by the rows; an absent one would raise \<open>KeyError\<close>
  at its first read, after the validation.
\<close>

record frame =
  columns :: "string list"
  rows :: "player_row list"

datatype error = KeyError string | ValueError "string list"

definition required_cols :: "string list" where
  "required_cols = [''team_carries'', ''team_rushing_yards'', ''team_rushing_tds'',
     ''team_receptions'', ''team_receiving_yards'', ''team_receiving_tds'',
     ''team_attempts'']"

definition missing_cols :: "frame \<Rightarrow> string list" where
  "missing_cols df = filter (\<lambda>col. col \<notin> set (columns df)) required_cols"

text \<open>\<open>Series.quantile(q)\<close>: NaN skipped, linear interpolation between order statistics.\<close>

definition quantile :: "real \<Rightarrow> num list \<Rightarrow> num" where
  "quantile q xs = (let v = sort (dropna xs); n = length v in
     if n = 0 then None
     else (let pos = q * real (n - 1); lo = nat \<lfloor>pos\<rfloor>; hi = min (n - 1) (lo + 1)
           in Some (v ! lo + (v ! hi - v ! lo) * (pos - real lo))))"

text \<open>The rows of the group of \<open>r\<close> under \<open>groupby('position')\<close>.\<close>

definition position_group :: "player_row list \<Rightarrow> player_row \<Rightarrow> player_row list" where
  "position_group tbl r = filter (\<lambda>q. position q = position r) tbl"

definition draft_capital_score :: "player_row \<Rightarrow> num" where
  "draft_capital_score r =
     (case draft_round r of None \<Rightarrow> Some 0 | Some d \<Rightarrow> fsub (Some 8) (clip 1 7 (Some d)))"

definition years_past_apex :: "player_row \<Rightarrow> num" where
  "years_past_apex r =
     (if position r = ''RB'' then clip_lower 0 (fsub (season_age r) (Some 24.5))
      else clip_lower 0 (fsub (season_age r) (Some 26.5)))"

definition norm_age_risk :: "player_row list \<Rightarrow> player_row \<Rightarrow> num" where
  "norm_age_risk tbl r = zscore (map years_past_apex (position_group tbl r)) (years_past_apex r)"

definition norm_youth_bonus :: "player_row list \<Rightarrow> player_row \<Rightarrow> num" where
  "norm_youth_bonus tbl r = fmul (norm_age_risk tbl r) (Some (- 1))"

definition arrival_threshold :: "player_row list \<Rightarrow> player_row \<Rightarrow> num" where
  "arrival_threshold tbl r = quantile 0.75 (map fantasy_points_per_game (position_group tbl r))"

definition breakout_multiplier :: "player_row list \<Rightarrow> player_row \<Rightarrow> num" where
  "breakout_multiplier tbl r =
     (if flt (fantasy_points_per_game r) (arrival_threshold tbl r) then Some 1.2 else Some 0.7)"

definition weighted_touches :: "player_row \<Rightarrow> num" where
  "weighted_touches r = fadd (fmul (fillna 0 (targets r)) (Some 2.8)) (fillna 0 (carries r))"

definition target_value :: "player_row \<Rightarrow> num" where
  "target_value r =
     (if position r = ''RB''
      then (if fgt (weighted_touches r) (Some 0)
            then fdiv (fantasy_points_half_ppr r) (weighted_touches r) else Some 0)
      else (if fgt (targets r) (Some 0)
            then fdiv (fantasy_points_half_ppr r) (targets r) else Some 0))"

definition norm_target_value :: "player_row list \<Rightarrow> player_row \<Rightarrow> num" where
  "norm_target_value tbl r = zscore (map target_value (position_group tbl r)) (target_value r)"

definition norm_target_share :: "player_row list \<Rightarrow> player_row \<Rightarrow> num" where
  "norm_target_share tbl r = zscore (map target_share (position_group tbl r)) (target_share r)"

text \<open>
  \<open>yptmpa\<close> is written twice in the source, with the tests
  \<^verbatim>\<open>team_attempts.fillna(0) > 0\<close> and \<^verbatim>\<open>team_attempts > 0\<close>; both are false on NaN, and
  the second assignment is the one that stays.
\<close>

definition yptmpa :: "player_row \<Rightarrow> num" where
  "yptmpa r = (if fgt (team_attempts r) (Some 0)
               then fdiv (fillna 0 (receiving_yards r)) (team_attempts r) else Some 0)"

definition air_yards_share :: "player_row \<Rightarrow> num" where
  "air_yards_share r = (if fgt (team_attempts r) (Some 0)
               then fdiv (fillna 0 (receiving_air_yards r)) (team_attempts r) else Some 0)"

definition raw_efficiency :: "player_row \<Rightarrow> num" where
  "raw_efficiency r =
     (if position r = ''RB'' then fillna 0 (rush_yac_att r) else fillna 0 (yptmpa r))"

definition norm_efficiency :: "player_row list \<Rightarrow> player_row \<Rightarrow> num" where
  "norm_efficiency tbl r = zscore (map raw_efficiency (position_group tbl r)) (raw_efficiency r)"

text \<open>The weighted sum of \<open>breakout_score\<close>, before any multiplier.\<close>

definition breakout_combination :: "num \<Rightarrow> num \<Rightarrow> num \<Rightarrow> num \<Rightarrow> num \<Rightarrow> num" where
  "breakout_combination capital youth tvalue efficiency tshare =
     fadd (fadd (fadd (fadd (fmul capital (Some 0.15))
                            (fmul youth (Some 0.20)))
                      (fmul tvalue (Some 0.25)))
                (fmul efficiency (Some 0.25)))
          (fmul (fsub (Some 1) (fillna 0 tshare)) (Some 0.15))"

definition arrival_multiplier :: "player_row list \<Rightarrow> player_row \<Rightarrow> num" where
  "arrival_multiplier tbl r =
     (if flt (fantasy_points_per_game r) (arrival_threshold tbl r) then Some 1.2 else Some 0.7)"

text \<open>
  \<open>breakout_score\<close> is assigned as the weighted sum times \<open>breakout_multiplier\<close> and then
  updated in place by \<^verbatim>\<open>df['breakout_score'] *= df['arrival_multiplier']\<close>.
\<close>

definition breakout_score :: "player_row list \<Rightarrow> player_row \<Rightarrow> num" where
  "breakout_score tbl r =
     fmul (fmul (breakout_combination (draft_capital_score r) (norm_youth_bonus tbl r)
                   (norm_target_value tbl r) (norm_efficiency tbl r) (norm_target_share tbl r))
                (breakout_multiplier tbl r))
          (arrival_multiplier tbl r)"

definition value_threshold :: "player_row list \<Rightarrow> player_row \<Rightarrow> num" where
  "value_threshold tbl r = quantile 0.60 (map fantasy_points_per_game (position_group tbl r))"

definition market_value_multiplier :: "player_row list \<Rightarrow> player_row \<Rightarrow> num" where
  "market_value_multiplier tbl r =
     (if fge (fantasy_points_per_game r) (value_threshold tbl r) then Some 1.3 else Some 0.5)"

definition norm_ypa_decline :: "player_row list \<Rightarrow> player_row \<Rightarrow> num" where
  "norm_ypa_decline tbl r =
     zscore_inverted (map per_touch_yards (position_group tbl r)) (per_touch_yards r)"

definition sell_high_combination :: "num \<Rightarrow> num \<Rightarrow> num \<Rightarrow> num \<Rightarrow> num" where
  "sell_high_combination age_risk tshare efficiency trajectory =
     fadd (fadd (fadd (fmul age_risk (Some 0.20))
                      (fmul tshare (Some 0.25)))
                (fmul efficiency (Some (- 0.30))))
          (fmul trajectory (Some (- 0.25)))"

definition sell_high_score :: "player_row list \<Rightarrow> player_row \<Rightarrow> num" where
  "sell_high_score tbl r =
     fmul (sell_high_combination (norm_age_risk tbl r) (norm_target_share tbl r)
             (norm_efficiency tbl r) (norm_trajectory r))
          (market_value_multiplier tbl r)"

definition air_yards_differential :: "player_row \<Rightarrow> num" where
  "air_yards_differential r =
     fsub (fillna 0 (receiving_air_yards r)) (fillna 0 (receiving_yards r))"

text \<open>
  The terms of \<open>buy_low_score\<close>.  In \<^verbatim>\<open>(1 / (fantasy_points_per_game + 0.1)).clip(0, 2)\<close> a
  zero divisor gives \<open>+inf\<close>, which the clip turns into 2.
\<close>

definition air_yards_term :: "player_row \<Rightarrow> num" where
  "air_yards_term r = clip 0 5 (fdiv (air_yards_differential r) (Some 100))"

definition target_share_term :: "player_row \<Rightarrow> num" where
  "target_share_term r = fmul (fillna 0 (target_share r)) (Some 10)"

definition scarcity_term :: "player_row \<Rightarrow> num" where
  "scarcity_term r =
     (case fantasy_points_per_game r of None \<Rightarrow> None
      | Some f \<Rightarrow> if f + 0.1 = 0 then Some 2 else clip 0 2 (Some (1 / (f + 0.1))))"

definition buy_low_combination :: "num \<Rightarrow> num \<Rightarrow> num \<Rightarrow> num \<Rightarrow> num \<Rightarrow> num" where
  "buy_low_combination air youth tshare capital scarcity =
     fadd (fadd (fadd (fadd (fmul air (Some 0.30))
                            (fmul youth (Some 0.20)))
                      (fmul tshare (Some 0.25)))
                (fmul capital (Some 0.15)))
          (fmul scarcity (Some 0.10))"

definition buy_low_score :: "player_row list \<Rightarrow> player_row \<Rightarrow> num" where
  "buy_low_score tbl r =
     buy_low_combination (air_yards_term r) (norm_youth_bonus tbl r) (target_share_term r)
       (draft_capital_score r) (scarcity_term r)"

subsection \<open>Share and rate columns\<close>

text \<open>
  The other columns that the engine computes by a division, row by row, in the order of
  the source.  Most are written \<^verbatim>\<open>np.where(test, numerator / denominator, 0)\<close>.
  \<open>np.log\<close> is the natural logarithm, read only at arguments above 1 here, and
  \<open>astype(int)\<close> truncates toward zero.
\<close>

definition np_log :: "num \<Rightarrow> num" where
  "np_log a = (case a of None \<Rightarrow> None | Some x \<Rightarrow> if x \<le> 0 then None else Some (ln x))"

definition astype_int :: "num \<Rightarrow> num" where
  "astype_int a = (case a of None \<Rightarrow> None
     | Some x \<Rightarrow> Some (if 0 \<le> x then of_int \<lfloor>x\<rfloor> else of_int \<lceil>x\<rceil>))"

definition draft_roi :: "player_row \<Rightarrow> num" where
  "draft_roi r =
     (if draft_pick_num r \<noteq> None \<and> fgt (draft_pick_num r) (Some 0)
      then fdiv (fantasy_points_per_game r) (np_log (fadd (draft_pick_num r) (Some 1)))
      else Some 0)"

definition designed_rush_share :: "player_row \<Rightarrow> num" where
  "designed_rush_share r =
     (if fgt (fillna 0 (carries r)) (Some 0)
      then fdiv (fillna 0 (rpo_rush_att r)) (carries r) else Some 0)"

definition scramble_rush_share :: "player_row \<Rightarrow> num" where
  "scramble_rush_share r =
     (if fgt (fillna 0 (carries r)) (Some 0)
      then fdiv (fillna 0 (scrambles r)) (carries r) else Some 0)"

definition pressure_resilience :: "player_row \<Rightarrow> num" where
  "pressure_resilience r =
     (if fgt (fillna 0 (pressure_pct r)) (Some 0)
      then fdiv (fillna 0 (passing_epa r)) (fmul (fillna 1 (attempts r)) (pressure_pct r))
      else Some 0)"

definition total_touch_share :: "player_row \<Rightarrow> num" where
  "total_touch_share r =
     (if fgt (fadd (team_carries r) (team_receptions r)) (Some 0)
      then fdiv (fadd (fillna 0 (carries r)) (fillna 0 (receptions r)))
                (fadd (team_carries r) (team_receptions r))
      else Some 0)"

definition contact_balance :: "player_row \<Rightarrow> num" where
  "contact_balance r =
     (if fgt (fillna 0 (rush_ybc_att r)) (Some 0)
      then fdiv (fillna 0 (rush_yac_att r)) (rush_ybc_att r) else Some 0)"

definition rb_elusiveness_index :: "player_row \<Rightarrow> num" where
  "rb_elusiveness_index r =
     (if fgt (fillna 0 (carries r)) (Some 0)
      then fdiv (fillna 0 (rush_brk_tkl r)) (carries r) else Some 0)"

definition rb_drive_dependency :: "player_row \<Rightarrow> num" where
  "rb_drive_dependency r =
     (if fgt (fillna 0 (carries r)) (Some 0)
      then fdiv (fillna 0 (rush_x1d r)) (carries r) else Some 0)"

definition receiving_back_score :: "player_row \<Rightarrow> num" where
  "receiving_back_score r =
     fadd (fadd (fmul (fillna 0 (target_share r)) (Some 2))
                (fdiv (fillna 0 (rec_yac_r r)) (Some 10)))
          (fdiv (fillna 0 (receptions r)) (replace0 (games r)))"

definition rb_complete_game :: "player_row \<Rightarrow> num" where
  "rb_complete_game r =
     fadd (fadd (fadd (fmul (total_touch_share r) (Some 3))
                      (fmul (rb_elusiveness_index r) (Some 10)))
                (fmul (receiving_back_score r) (Some 0.5)))
          (fdiv (fadd (fillna 0 (rushing_tds r)) (fillna 0 (receiving_tds r)))
                (replace0 (games r)))"

definition workhorse_score :: "player_row \<Rightarrow> num" where
  "workhorse_score r =
     (if fgt (games r) (Some 0) then fdiv (weighted_touches r) (games r) else Some 0)"

definition separation_index :: "player_row \<Rightarrow> num" where
  "separation_index r =
     (if fgt (fillna 0 (rec_adot r)) (Some 0)
      then fdiv (fillna 0 (rec_ybc_r r)) (rec_adot r) else Some 0)"

definition yac_creator :: "player_row \<Rightarrow> num" where
  "yac_creator r =
     (if fgt (fadd (fillna 0 (rec_ybc_r r)) (fillna 0 (rec_yac_r r))) (Some 0)
      then fdiv (fillna 0 (rec_yac_r r))
                (fadd (fillna 0 (rec_ybc_r r)) (fillna 0 (rec_yac_r r)))
      else Some 0)"

definition wr_elusiveness_index :: "player_row \<Rightarrow> num" where
  "wr_elusiveness_index r =
     (if fgt (fillna 0 (receptions r)) (Some 0)
      then fdiv (fillna 0 (rec_brk_tkl r)) (receptions r) else Some 0)"

definition receiver_drive_dependency :: "player_row \<Rightarrow> num" where
  "receiver_drive_dependency r =
     (if fgt (fillna 0 (receptions r)) (Some 0)
      then fdiv (fillna 0 (rec_x1d r)) (receptions r) else Some 0)"

definition receiver_creation_adj :: "player_row \<Rightarrow> num" where
  "receiver_creation_adj r =
     (if fgt (fillna 1 (season_age r)) (Some 0)
      then fdiv (fadd (fillna 0 (rec_yac_r r)) (fmul (fillna 0 (rec_brk_tkl r)) (Some 2)))
                (season_age r)
      else Some 0)"

definition true_catch_rate :: "player_row \<Rightarrow> num" where
  "true_catch_rate r =
     (if fgt (fillna 0 (is_catchable_ball r)) (Some 0)
      then fdiv (fillna 0 (receptions r)) (is_catchable_ball r) else Some 0)"

text \<open>
  \<open>contested_catch_rate\<close> is computed only when the table has the column
  \<open>is_contested_ball\<close>, and is the constant 0 otherwise.
\<close>

definition contested_catch_rate :: "string list \<Rightarrow> player_row \<Rightarrow> num" where
  "contested_catch_rate cols r =
     (if ''is_contested_ball'' \<in> set cols
      then (if fgt (astype_int (fillna 0 (is_contested_ball r))) (Some 0)
            then fdiv (fillna 0 (receptions r)) (is_contested_ball r) else Some 0)
      else Some 0)"

definition air_yards_conversion :: "player_row \<Rightarrow> num" where
  "air_yards_conversion r =
     (if fgt (fillna 0 (receiving_air_yards r)) (Some 0)
      then fdiv (fillna 0 (receiving_yards r)) (receiving_air_yards r) else Some 0)"

definition wopr :: "player_row \<Rightarrow> num" where
  "wopr r = fadd (fmul (Some 1.5) (fillna 0 (target_share r))) (fmul (Some 0.7) (air_yards_share r))"

definition rec_yards_share :: "player_row \<Rightarrow> num" where
  "rec_yards_share r =
     (if fgt (team_receiving_yards r) (Some 0)
      then fdiv (fillna 0 (receiving_yards r)) (team_receiving_yards r) else Some 0)"

definition rec_td_share :: "player_row \<Rightarrow> num" where
  "rec_td_share r =
     (if fgt (team_receiving_tds r) (Some 0)
      then fdiv (fillna 0 (receiving_tds r)) (team_receiving_tds r) else Some 0)"

definition dominator_rating :: "player_row \<Rightarrow> num" where
  "dominator_rating r = fdiv (fadd (rec_yards_share r) (rec_td_share r)) (Some 2)"

definition consistency_score :: "player_row \<Rightarrow> num" where
  "consistency_score r =
     (if fgt (games r) (Some 8)
      then fdiv (fantasy_points_per_game r) (replace0 (games r)) else Some 0)"

text \<open>
  The columns whose test is on the very quantity they divide by and whose numerator is
  null-filled, each with its denominator as the source writes it.
\<close>

definition guarded_rates ::
  "string list \<Rightarrow> ((player_row \<Rightarrow> num) \<times> (player_row \<Rightarrow> num)) list" where
  "guarded_rates cols =
     [(designed_rush_share, carries),
      (scramble_rush_share, carries),
      (total_touch_share, \<lambda>r. fadd (team_carries r) (team_receptions r)),
      (contact_balance, rush_ybc_att),
      (rb_elusiveness_index, carries),
      (rb_drive_dependency, carries),
      (workhorse_score, games),
      (yptmpa, team_attempts),
      (separation_index, rec_adot),
      (yac_creator, \<lambda>r. fadd (fillna 0 (rec_ybc_r r)) (fillna 0 (rec_yac_r r))),
      (wr_elusiveness_index, receptions),
      (receiver_drive_dependency, receptions),
      (true_catch_rate, is_catchable_ball),
      (contested_catch_rate cols, is_contested_ball),
      (air_yards_conversion, receiving_air_yards),
      (air_yards_share, team_attempts),
      (rec_yards_share, team_receiving_yards),
      (rec_td_share, team_receiving_tds)]"

text \<open>
  The derived columns of one output row on which the three composite scores and the
  candidate filters depend; a field \<open>c_x\<close> holds the column \<open>x\<close>, whose formula is the
  function \<open>x\<close> above.  \<open>raw_per_touch_yards\<close> is recomputed by the engine with the
  formula of the trajectory module and overwrites that column.
\<close>

record composite =
  c_air_yards_share :: num
  c_yptmpa :: num
  c_target_value :: num
  c_draft_capital_score :: num
  c_norm_age_risk :: num
  c_norm_youth_bonus :: num
  c_arrival_threshold :: num
  c_breakout_multiplier :: num
  c_norm_target_value :: num
  c_norm_target_share :: num
  c_norm_efficiency :: num
  c_arrival_multiplier :: num
  c_breakout_score :: num
  c_market_value_multiplier :: num
  c_norm_ypa_decline :: num
  c_sell_high_score :: num
  c_air_yards_differential :: num
  c_buy_low_score :: num

record scored_row =
  base :: player_row
  derived :: composite

definition score_row :: "player_row list \<Rightarrow> player_row \<Rightarrow> scored_row" where
  "score_row tbl r =
     \<lparr>base = r\<lparr>raw_per_touch_yards := per_touch_yards r\<rparr>,
      derived = \<lparr>c_air_yards_share = air_yards_share r,
                 c_yptmpa = yptmpa r,
                 c_target_value = target_value r,
                 c_draft_capital_score = draft_capital_score r,
                 c_norm_age_risk = norm_age_risk tbl r,
                 c_norm_youth_bonus = norm_youth_bonus tbl r,
                 c_arrival_threshold = arrival_threshold tbl r,
                 c_breakout_multiplier = breakout_multiplier tbl r,
                 c_norm_target_value = norm_target_value tbl r,
                 c_norm_target_share = norm_target_share tbl r,
                 c_norm_efficiency = norm_efficiency tbl r,
                 c_arrival_multiplier = arrival_multiplier tbl r,
                 c_breakout_score = breakout_score tbl r,
                 c_market_value_multiplier = market_value_multiplier tbl r,
                 c_norm_ypa_decline = norm_ypa_decline tbl r,
                 c_sell_high_score = sell_high_score tbl r,
                 c_air_yards_differential = air_yards_differential r,
                 c_buy_low_score = buy_low_score tbl r\<rparr>\<rparr>"

definition calculate_composite_metrics :: "frame \<Rightarrow> error + scored_row list" where
  "calculate_composite_metrics df =
     (if ''games'' \<notin> set (columns df) then Inl (KeyError ''games'')
      else (let kept = filter (\<lambda>r. fge (games r) (Some 8)) (rows df) in
            if missing_cols df \<noteq> [] then Inl (ValueError (missing_cols df))
            else Inr (map (score_row kept) kept)))"

section \<open>Source normalizer: multi-team rows of \<open>get_pfr_advstats_combined\<close>\<close>

text \<open>
  One row of an advanced-charting table of one statistical category (pass, rush or rec),
  after its team column has been renamed to \<open>team\<close>.  \<open>stats\<close> stands for the remaining
  columns.
\<close>

record 'a pfr_row =
  pfr_id :: string
  pfr_season :: int
  team :: string
  stats :: 'a

fun starts_with :: "string \<Rightarrow> string \<Rightarrow> bool" where
  "starts_with [] s = True"
| "starts_with (p # ps) [] = False"
| "starts_with (p # ps) (c # cs) = (p = c \<and> starts_with ps cs)"

text \<open>\<open>str.contains(pat)\<close> for a pattern without metacharacters: \<open>pat\<close> occurs in \<open>s\<close>.\<close>

fun str_contains :: "string \<Rightarrow> string \<Rightarrow> bool" where
  "str_contains pat [] = starts_with pat []"
| "str_contains pat (c # cs) = (starts_with pat (c # cs) \<or> str_contains pat cs)"

definition is_total_row :: "'a pfr_row \<Rightarrow> bool" where
  "is_total_row r = str_contains ''TM'' (team r)"

text \<open>\<^verbatim>\<open>groupby(['pfr_id', 'season'])['is_total_row'].transform('any')\<close>, at the row \<open>r\<close>.\<close>

definition has_total :: "'a pfr_row list \<Rightarrow> 'a pfr_row \<Rightarrow> bool" where
  "has_total temp_df r =
     list_ex is_total_row
       (filter (\<lambda>q. pfr_id q = pfr_id r \<and> pfr_season q = pfr_season r) temp_df)"

text \<open>
  \<^verbatim>\<open>temp_df[(has_total & temp_df['is_total_row']) | (~has_total)]\<close>
\<close>

definition handle_midseason_trades :: "'a pfr_row list \<Rightarrow> 'a pfr_row list" where
  "handle_midseason_trades temp_df =
     filter (\<lambda>r. (has_total temp_df r \<and> is_total_row r) \<or> \<not> has_total temp_df r) temp_df"

text \<open>
  The loop of \<open>get_pfr_advstats_combined\<close> runs this step on the table of each category
  in turn, before the tables are merged.
\<close>

definition normalize_categories :: "'a pfr_row list list \<Rightarrow> 'a pfr_row list list" where
  "normalize_categories tables = map handle_midseason_trades tables"

section \<open>Fusion engine: \<open>construct_intelligent_dataset\<close>\<close>

text \<open>
  The tables that the loaders hand to the constructor.  The calls to the statistics
  provider are outside the program, so what they return is the input of the model; each
  row carries its join keys and, in its \<open>data\<close> field, its other columns.  A player key
  of a source other than the base stats may be null.
\<close>

record 'a stats_row =
  st_player_id :: string
  st_season :: int
  st_position :: string
  st_recent_team :: string
  st_data :: 'a

record 'a team_row =
  tm_recent_team :: string
  tm_season :: int
  tm_data :: 'a

record 'a adv_row =
  adv_player_id :: "string option"
  adv_season :: int
  adv_data :: 'a

text \<open>The four play flags are summed as 64-bit integers, so the sums wrap around.\<close>

record ftn_play =
  receiver_player_id :: "string option"
  play_season :: int
  play_is_catchable_ball :: "64 word"
  play_is_contested_ball :: "64 word"
  play_is_drop :: "64 word"
  play_is_interception_worthy :: "64 word"

record ftn_row =
  ftn_player_id :: string
  ftn_season :: int
  sum_catchable_ball :: "64 word"
  sum_contested_ball :: "64 word"
  sum_drop :: "64 word"
  sum_interception_worthy :: "64 word"

record 'a draft_row =
  dr_player_id :: "string option"
  dr_data :: 'a

text \<open>\<open>birth_date\<close> after \<open>pd.to_datetime(errors='coerce')\<close>: year and month, or null.\<close>

record 'a roster_row =
  ro_player_id :: "string option"
  ro_season :: int
  birth_date :: "(int \<times> int) option"
  ro_data :: 'a

record 'a contract_row =
  ct_player_id :: string
  ct_season :: int
  ct_data :: 'a

text \<open>
  \<open>pfr_combined\<close> is the merged charting table that \<open>get_pfr_advstats_combined\<close> holds
  before its final \<open>drop_duplicates\<close>; it is empty exactly when no category had data,
  and then the loader returns \<^verbatim>\<open>pd.DataFrame()\<close>, a table without columns.
  \<open>ftn_joined\<close> is the play table that \<open>get_ftn_stats\<close> aggregates.  \<open>contract_years\<close> is
  the list \<open>all_rows\<close> of \<open>get_contract_data\<close>; when it is empty the table built from it
  has no columns either.
\<close>

record 'a sources =
  player_stats :: "'a stats_row list"
  team_stats :: "'a team_row list"
  pfr_combined :: "'a adv_row list"
  ftn_joined :: "ftn_play list"
  draft_picks :: "'a draft_row list"
  rosters :: "'a roster_row list"
  contract_years :: "'a contract_row list"

text \<open>\<open>drop_duplicates(subset=key)\<close> keeps the first row of each key.\<close>

fun drop_duplicates_from :: "('r \<Rightarrow> 'k) \<Rightarrow> 'k list \<Rightarrow> 'r list \<Rightarrow> 'r list" where
  "drop_duplicates_from key seen [] = []"
| "drop_duplicates_from key seen (r # rs) =
     (if key r \<in> set seen then drop_duplicates_from key seen rs
      else r # drop_duplicates_from key (key r # seen) rs)"

definition drop_duplicates :: "('r \<Rightarrow> 'k) \<Rightarrow> 'r list \<Rightarrow> 'r list" where
  "drop_duplicates key rs = drop_duplicates_from key [] rs"

text \<open>\<open>drop_duplicates(subset=key, keep='last')\<close> keeps the last row of each key.\<close>

definition drop_duplicates_last :: "('r \<Rightarrow> 'k) \<Rightarrow> 'r list \<Rightarrow> 'r list" where
  "drop_duplicates_last key rs = rev (drop_duplicates key (rev rs))"

text \<open>
  \<open>get_ftn_stats\<close>: \<^verbatim>\<open>groupby(['receiver_player_id', 'season']).agg(sum)\<close> drops the
  plays without a receiver and yields one row for each key, in key order.
\<close>

definition ftn_key :: "ftn_play \<Rightarrow> (string \<times> int) option" where
  "ftn_key p = map_option (\<lambda>i. (i, play_season p)) (receiver_player_id p)"

definition get_ftn_stats :: "ftn_play list \<Rightarrow> ftn_row list" where
  "get_ftn_stats plays =
     map (\<lambda>k. let g = filter (\<lambda>p. ftn_key p = Some k) plays in
               \<lparr>ftn_player_id = fst k, ftn_season = snd k,
                sum_catchable_ball = sum_list (map play_is_catchable_ball g),
                sum_contested_ball = sum_list (map play_is_contested_ball g),
                sum_drop = sum_list (map play_is_drop g),
                sum_interception_worthy = sum_list (map play_is_interception_worthy g)\<rparr>)
         (sort (remdups (List.map_filter ftn_key plays)))"

text \<open>
  One row of the fused table: the base stats row and, for each joined source, the matched
  row or null columns.
\<close>

record 'a fused_row =
  stats_part :: "'a stats_row"
  team_part :: "'a team_row option"
  pfr_part :: "'a adv_row option"
  ftn_part :: "ftn_row option"
  draft_part :: "'a draft_row option"
  roster_part :: "'a roster_row option"
  contract_part :: "'a contract_row option"
  fused_season_age :: "int option"

definition unjoined :: "'a stats_row \<Rightarrow> 'a fused_row" where
  "unjoined s = \<lparr>stats_part = s, team_part = None, pfr_part = None, ftn_part = None,
                  draft_part = None, roster_part = None, contract_part = None,
                  fused_season_age = None\<rparr>"

text \<open>
  \<open>left.merge(right, on=keys, how='left')\<close>: every left row, in order, once for each
  right row with equal keys (in the order of the right table), or once with nulls when
  there is none.  \<open>on\<close> compares the keys and \<open>put\<close> writes the columns of the match.
\<close>

definition merge_left ::
  "('l \<Rightarrow> 'r \<Rightarrow> bool) \<Rightarrow> ('l \<Rightarrow> 'r \<Rightarrow> 'l) \<Rightarrow> 'l list \<Rightarrow> 'r list \<Rightarrow> 'l list" where
  "merge_left on put left right =
     concat (map (\<lambda>l. case filter (on l) right of [] \<Rightarrow> [l] | m # ms \<Rightarrow> map (put l) (m # ms))
                 left)"

definition fused_key :: "'a fused_row \<Rightarrow> string \<times> int" where
  "fused_key f = (st_player_id (stats_part f), st_season (stats_part f))"

text \<open>
  \<^verbatim>\<open>season_age = season - birth_date.dt.year\<close>, less one where
  \<^verbatim>\<open>birth_date.dt.month > 9\<close>; null without a birth date.
\<close>

definition set_season_age :: "'a fused_row \<Rightarrow> 'a fused_row" where
  "set_season_age f =
     f\<lparr>fused_season_age :=
         (case roster_part f of None \<Rightarrow> None
          | Some ro \<Rightarrow> (case birth_date ro of None \<Rightarrow> None
              | Some (y, m) \<Rightarrow> Some (st_season (stats_part f) - y - (if m > 9 then 1 else 0))))\<rparr>"

text \<open>
  The six loaders run first, then the joins in their fixed order.  A join raises
  \<open>KeyError\<close> for its first key when the right table has no such column: this happens
  at the charting join when \<open>pfr_combined\<close> is empty, and at the contract join when
  \<open>contract_years\<close> is empty.  The constructor raises nothing else.
\<close>

definition construct_intelligent_dataset ::
  "'a sources \<Rightarrow> string list \<Rightarrow> error + 'a fused_row list" where
  "construct_intelligent_dataset src positions =
     (let df_stats = player_stats src;
          df_team = team_stats src;
          df_pfr = drop_duplicates (\<lambda>p. (adv_player_id p, adv_season p)) (pfr_combined src);
          df_ftn = get_ftn_stats (ftn_joined src);
          df_draft = draft_picks src;
          df_contracts = drop_duplicates_last (\<lambda>c. (ct_player_id c, ct_season c))
                           (contract_years src);
          roster_info = rosters src;
          df0 = map unjoined (filter (\<lambda>s. st_position s \<in> set positions) df_stats);
          df1 = merge_left
                  (\<lambda>l t. tm_recent_team t = st_recent_team (stats_part l)
                           \<and> tm_season t = st_season (stats_part l))
                  (\<lambda>l t. l\<lparr>team_part := Some t\<rparr>) df0 df_team
      in if pfr_combined src = [] then Inl (KeyError ''player_id'')
         else
          (let df2 = merge_left
                  (\<lambda>l p. adv_player_id p = Some (st_player_id (stats_part l))
                           \<and> adv_season p = st_season (stats_part l))
                  (\<lambda>l p. l\<lparr>pfr_part := Some p\<rparr>) df1 df_pfr;
               df3 = merge_left
                  (\<lambda>l c. ftn_player_id c = st_player_id (stats_part l)
                           \<and> ftn_season c = st_season (stats_part l))
                  (\<lambda>l c. l\<lparr>ftn_part := Some c\<rparr>) df2 df_ftn;
               df4 = merge_left
                  (\<lambda>l d. dr_player_id d = Some (st_player_id (stats_part l)))
                  (\<lambda>l d. l\<lparr>draft_part := Some d\<rparr>) df3 df_draft;
               df5 = merge_left
                  (\<lambda>l ro. ro_player_id ro = Some (st_player_id (stats_part l))
                            \<and> ro_season ro = st_season (stats_part l))
                  (\<lambda>l ro. l\<lparr>roster_part := Some ro\<rparr>) df4 roster_info
           in if contract_years src = [] then Inl (KeyError ''player_id'')
              else
               (let df6 = merge_left
                      (\<lambda>l c. ct_player_id c = st_player_id (stats_part l)
                               \<and> ct_season c = st_season (stats_part l))
                      (\<lambda>l c. l\<lparr>contract_part := Some c\<rparr>) df5 df_contracts
                in Inr (sort_key fused_key (map set_season_age df6)))))"

section \<open>Segmentation module: \<open>get_dynasty_candidates\<close>\<close>

text \<open>
  The masks of the \<open>breakout\<close> branch, in the order of the source, then those of
  \<open>sell_high\<close> and of \<open>buy_low\<close>.
\<close>

definition min_games_mask :: "real \<Rightarrow> scored_row \<Rightarrow> bool" where
  "min_games_mask min_games s = fge (games (base s)) (Some min_games)"

definition volume_mask :: "real \<Rightarrow> real \<Rightarrow> scored_row \<Rightarrow> bool" where
  "volume_mask min_targets min_carries s =
     ((position (base s) \<in> set [''WR'', ''TE''] \<and> fge (targets (base s)) (Some min_targets))
      \<or> (position (base s) = ''RB'' \<and> fge (carries (base s)) (Some min_carries)))"

definition breakout_filter :: "scored_row list \<Rightarrow> scored_row list" where
  "breakout_filter df =
     filter (\<lambda>s. fle (season_age (base s)) (Some 25))
       (filter (volume_mask 25 40)
          (filter (\<lambda>s. position (base s) \<noteq> ''QB'') df))"

definition sell_high_filter :: "scored_row list \<Rightarrow> scored_row list" where
  "sell_high_filter df =
     filter (\<lambda>s. position (base s) \<noteq> ''QB'')
       (filter (volume_mask 60 80)
          (filter (\<lambda>s. (position (base s) = ''RB'' \<and> fge (season_age (base s)) (Some 26))
                      \<or> (position (base s) \<in> set [''WR'', ''TE'']
                           \<and> fge (season_age (base s)) (Some 28))) df))"

definition buy_low_filter :: "scored_row list \<Rightarrow> scored_row list" where
  "buy_low_filter df =
     filter (\<lambda>s. fgt (c_air_yards_differential (derived s)) (Some 0)) df"

text \<open>
  \<open>sort_values(col, ascending=False)\<close> is the library's routine; the source passes no
  \<open>kind\<close>, and the order that the routine gives to rows with equal values is not fixed by
  the program.  It is a parameter of the model: \<open>sort_values col df\<close> is the table sorted
  in descending order of \<open>col\<close>.  \<open>head(top_n)\<close> is \<open>take\<close>.
\<close>

definition get_dynasty_candidates ::
  "((scored_row \<Rightarrow> num) \<Rightarrow> scored_row list \<Rightarrow> scored_row list) \<Rightarrow>
   scored_row list \<Rightarrow> string \<Rightarrow> real \<Rightarrow> nat \<Rightarrow> scored_row list" where
  "get_dynasty_candidates sort_values df candidate_type min_games top_n =
     (let df_filtered = filter (min_games_mask min_games) df in
      if candidate_type = ''breakout''
      then take top_n (sort_values (\<lambda>s. c_breakout_score (derived s)) (breakout_filter df_filtered))
      else if candidate_type = ''sell_high''
      then take top_n (sort_values (\<lambda>s. c_sell_high_score (derived s)) (sell_high_filter df_filtered))
      else if candidate_type = ''buy_low''
      then take top_n (sort_values (\<lambda>s. c_buy_low_score (derived s)) (buy_low_filter df_filtered))
      else [])"

text \<open>
  A routine that meets the contract of \<open>sort_values(col, ascending=False)\<close>: descending
  in \<open>col\<close>, rows with NaN last.  It serves to run the function on concrete tables.
\<close>

definition sort_values_descending :: "('r \<Rightarrow> num) \<Rightarrow> 'r list \<Rightarrow> 'r list" where
  "sort_values_descending col df =
     rev (sort_key (\<lambda>r. case col r of None \<Rightarrow> 0 | Some x \<Rightarrow> x)
            (rev (filter (\<lambda>r. col r \<noteq> None) df)))
     @ filter (\<lambda>r. col r = None) df"

section \<open>Specification-side definitions\<close>

text \<open>
  The weight vectors as the specification lists them, and the reading of "fixed-weight
  linear combination": the sum of the terms, each multiplied by its weight, taken from
  left to right as the source writes it.
\<close>

definition weighted_sum :: "real list \<Rightarrow> num list \<Rightarrow> num" where
  "weighted_sum ws ts = foldl (\<lambda>acc (w, t). fadd acc (fmul t (Some w))) (Some 0) (zip ws ts)"

definition breakout_weights :: "real list" where
  "breakout_weights = [0.15, 0.20, 0.25, 0.25, 0.15]"

definition sell_high_weights :: "real list" where
  "sell_high_weights = [0.20, 0.25, - 0.30, - 0.25]"

definition buy_low_weights :: "real list" where
  "buy_low_weights = [0.30, 0.20, 0.25, 0.15, 0.10]"

text \<open>The \<open>breakout\<close> line of the category threshold table.\<close>

definition breakout_conditions :: "real \<Rightarrow> scored_row \<Rightarrow> bool" where
  "breakout_conditions min_games s \<longleftrightarrow>
     fge (games (base s)) (Some min_games)
     \<and> position (base s) \<noteq> ''QB''
     \<and> ((position (base s) = ''WR'' \<or> position (base s) = ''TE'')
            \<and> fge (targets (base s)) (Some 25)
          \<or> position (base s) = ''RB'' \<and> fge (carries (base s)) (Some 40))
     \<and> fle (season_age (base s)) (Some 25)"

section \<open>Example tables\<close>

text \<open>
  The running back of the trajectory scenario: 100 carries for 400 yards in season 1,
  80 carries for 240 yards in season 2.
\<close>

definition blank_row :: player_row where
  "blank_row = \<lparr>player_id = ''P'', season = 1, position = ''RB'', games = Some 16,
     carries = None, rushing_yards = None, targets = None, receiving_yards = None,
     receiving_air_yards = None, target_share = None, team_attempts = None,
     fantasy_points_per_game = None, fantasy_points_half_ppr = None, season_age = None,
     draft_round = None, rush_yac_att = None, draft_pick_num = None, attempts = None,
     passing_epa = None, pressure_pct = None, rpo_rush_att = None, scrambles = None,
     receptions = None, rushing_tds = None, receiving_tds = None, rush_ybc_att = None,
     rush_brk_tkl = None, rush_x1d = None, rec_adot = None, rec_ybc_r = None,
     rec_yac_r = None, rec_brk_tkl = None, rec_x1d = None, is_catchable_ball = None,
     is_contested_ball = None, team_carries = None, team_receptions = None,
     team_receiving_yards = None, team_receiving_tds = None, raw_per_touch_yards = None,
     prev_efficiency = None, efficiency_delta = None, norm_trajectory = None\<rparr>"

definition rb_season_1 :: player_row where
  "rb_season_1 = blank_row\<lparr>carries := Some 100, rushing_yards := Some 400\<rparr>"

definition rb_season_2 :: player_row where
  "rb_season_2 = blank_row\<lparr>season := 2, carries := Some 80, rushing_yards := Some 240\<rparr>"

text \<open>A 27-year-old running back who is the only one of his position in the table.\<close>

definition lone_rb :: player_row where
  "lone_rb = blank_row\<lparr>carries := Some 200, rushing_yards := Some 900, season_age := Some 27\<rparr>"

definition lone_rb_frame :: frame where
  "lone_rb_frame = \<lparr>columns = ''games'' # required_cols, rows = [lone_rb]\<rparr>"

text \<open>
  A running back with no carry who gained 5 rushing yards on a lateral; a quarterback
  (the base stats give him no targets and no receiving yards); a passer with a pressure
  rate on record and no attempt; a receiver for whom every denominator is 0; and a back
  for whom every denominator is positive.
\<close>

definition lateral_rb :: player_row where
  "lateral_rb = blank_row\<lparr>carries := Some 0, rushing_yards := Some 5\<rparr>"

definition quarterback :: player_row where
  "quarterback = blank_row\<lparr>position := ''QB'', carries := Some 40, rushing_yards := Some 150\<rparr>"

definition sacked_passer :: player_row where
  "sacked_passer = blank_row\<lparr>position := ''QB'', attempts := Some 0,
     passing_epa := Some (- 2), pressure_pct := Some 0.3\<rparr>"

definition drafted_rb :: player_row where
  "drafted_rb = blank_row\<lparr>carries := Some 100, rushing_yards := Some 400,
     draft_pick_num := Some 10\<rparr>"

definition idle_receiver :: player_row where
  "idle_receiver =
    \<lparr>player_id = ''P'', season = 1, position = ''WR'', games = Some 0,
     carries = Some 0, rushing_yards = None, targets = Some 0, receiving_yards = Some 12,
     receiving_air_yards = Some 0, target_share = None, team_attempts = Some 0,
     fantasy_points_per_game = None, fantasy_points_half_ppr = None, season_age = None,
     draft_round = None, rush_yac_att = None, draft_pick_num = None, attempts = None,
     passing_epa = None, pressure_pct = None, rpo_rush_att = Some 1, scrambles = Some 1,
     receptions = Some 0, rushing_tds = None, receiving_tds = None, rush_ybc_att = Some 0,
     rush_brk_tkl = Some 1, rush_x1d = Some 1, rec_adot = Some 0, rec_ybc_r = Some 0,
     rec_yac_r = Some 0, rec_brk_tkl = Some 1, rec_x1d = Some 1,
     is_catchable_ball = Some 0, is_contested_ball = Some 0, team_carries = Some 0,
     team_receptions = Some 0, team_receiving_yards = Some 0, team_receiving_tds = Some 0,
     raw_per_touch_yards = None, prev_efficiency = None, efficiency_delta = None,
     norm_trajectory = None\<rparr>"

definition starter :: player_row where
  "starter =
    \<lparr>player_id = ''P'', season = 1, position = ''RB'', games = Some 16,
     carries = Some 100, rushing_yards = Some 450, targets = Some 80,
     receiving_yards = Some 400, receiving_air_yards = Some 800, target_share = Some 0.2,
     team_attempts = Some 500, fantasy_points_per_game = Some 12,
     fantasy_points_half_ppr = Some 162, season_age = Some 25, draft_round = None,
     rush_yac_att = Some 3, draft_pick_num = Some 10, attempts = Some 40,
     passing_epa = Some 10, pressure_pct = Some 0.25, rpo_rush_att = Some 10,
     scrambles = Some 5, receptions = Some 50, rushing_tds = Some 4,
     receiving_tds = Some 4, rush_ybc_att = Some 2, rush_brk_tkl = Some 20,
     rush_x1d = Some 25, rec_adot = Some 8, rec_ybc_r = Some 4, rec_yac_r = Some 6,
     rec_brk_tkl = Some 5, rec_x1d = Some 20, is_catchable_ball = Some 60,
     is_contested_ball = Some 10, team_carries = Some 300, team_receptions = Some 200,
     team_receiving_yards = Some 4000, team_receiving_tds = Some 20,
     raw_per_touch_yards = None, prev_efficiency = None, efficiency_delta = None,
     norm_trajectory = None\<rparr>"

text \<open>
  The running back of the scenario listed twice for season 1, with 100 carries for 400
  yards and 100 carries for 200 yards, and another back.
\<close>

definition rb_season_1_repeat :: player_row where
  "rb_season_1_repeat = blank_row\<lparr>carries := Some 100, rushing_yards := Some 200\<rparr>"

definition other_rb :: player_row where
  "other_rb = blank_row\<lparr>player_id := ''Q'', season := 2, carries := Some 50,
     rushing_yards := Some 250\<rparr>"

text \<open>Two receivers that differ in points per game only.\<close>

definition wr_a :: player_row where
  "wr_a = blank_row\<lparr>player_id := ''A'', position := ''WR'', targets := Some 100,
     receiving_yards := Some 800, receiving_air_yards := Some 1000, target_share := Some 0.2,
     team_attempts := Some 500, fantasy_points_per_game := Some 10,
     fantasy_points_half_ppr := Some 160, season_age := Some 24, draft_round := Some 1,
     norm_trajectory := Some 0\<rparr>"

definition wr_b :: player_row where
  "wr_b = wr_a\<lparr>player_id := ''B'', fantasy_points_per_game := Some 20\<rparr>"

definition wr_frame :: frame where
  "wr_frame = \<lparr>columns = ''games'' # required_cols, rows = [wr_a, wr_b]\<rparr>"

text \<open>Two running backs that differ in points per game only, in a table with the receivers.\<close>

definition rb_c :: player_row where
  "rb_c = blank_row\<lparr>player_id := ''C'', carries := Some 100, targets := Some 20,
     fantasy_points_per_game := Some 2, fantasy_points_half_ppr := Some 39,
     season_age := Some 24, draft_round := Some 2, rush_yac_att := Some 2,
     norm_trajectory := Some 0\<rparr>"

definition rb_d :: player_row where
  "rb_d = rb_c\<lparr>player_id := ''D'', fantasy_points_per_game := Some 4\<rparr>"

definition two_position_frame :: frame where
  "two_position_frame =
     \<lparr>columns = ''games'' # required_cols, rows = [wr_a, rb_c, wr_b, rb_d]\<rparr>"

definition frame_missing_two :: frame where
  "frame_missing_two =
     \<lparr>columns = [''games'', ''team_rushing_yards'', ''team_rushing_tds'', ''team_receptions'',
                  ''team_receiving_yards'', ''team_receiving_tds''],
      rows = [wr_a, wr_b]\<rparr>"

definition frame_without_games :: frame where
  "frame_without_games =
     \<lparr>columns = [''team_rushing_yards'', ''team_rushing_tds'', ''team_receptions'',
                  ''team_receiving_yards'', ''team_receiving_tds'', ''team_attempts''],
      rows = [wr_a, wr_b]\<rparr>"

text \<open>
  A traded player with a combined row and a team row, and a player with one team row.
\<close>

definition traded_combined :: "unit pfr_row" where
  "traded_combined = \<lparr>pfr_id = ''BarkSa00'', pfr_season = 2024, team = ''2TM'', stats = ()\<rparr>"

definition traded_team :: "unit pfr_row" where
  "traded_team = \<lparr>pfr_id = ''BarkSa00'', pfr_season = 2024, team = ''NYG'', stats = ()\<rparr>"

definition settled :: "unit pfr_row" where
  "settled = \<lparr>pfr_id = ''HenrDe00'', pfr_season = 2024, team = ''BAL'', stats = ()\<rparr>"

text \<open>
  Sources of two seasons: a receiver with two seasons, a quarterback and a kicker.  The
  charting table and the contract list name the receiver's 2024 season twice.  In the
  second record the roster lists the receiver twice for 2024 as well.
\<close>

definition season_sources :: "string sources" where
  "season_sources =
     \<lparr>player_stats =
        [\<lparr>st_player_id = ''B'', st_season = 2024, st_position = ''QB'',
          st_recent_team = ''DAL'', st_data = ''passing''\<rparr>,
         \<lparr>st_player_id = ''A'', st_season = 2024, st_position = ''WR'',
          st_recent_team = ''NYG'', st_data = ''receiving''\<rparr>,
         \<lparr>st_player_id = ''K'', st_season = 2024, st_position = ''K'',
          st_recent_team = ''NYG'', st_data = ''kicking''\<rparr>,
         \<lparr>st_player_id = ''A'', st_season = 2023, st_position = ''WR'',
          st_recent_team = ''NYG'', st_data = ''receiving''\<rparr>],
      team_stats =
        [\<lparr>tm_recent_team = ''NYG'', tm_season = 2023, tm_data = ''nyg 2023''\<rparr>,
         \<lparr>tm_recent_team = ''NYG'', tm_season = 2024, tm_data = ''nyg 2024''\<rparr>,
         \<lparr>tm_recent_team = ''DAL'', tm_season = 2024, tm_data = ''dal 2024''\<rparr>],
      pfr_combined =
        [\<lparr>adv_player_id = Some ''A'', adv_season = 2024, adv_data = ''first''\<rparr>,
         \<lparr>adv_player_id = Some ''A'', adv_season = 2024, adv_data = ''second''\<rparr>,
         \<lparr>adv_player_id = None, adv_season = 2024, adv_data = ''unmapped''\<rparr>,
         \<lparr>adv_player_id = Some ''B'', adv_season = 2024, adv_data = ''first''\<rparr>],
      ftn_joined =
        [\<lparr>receiver_player_id = Some ''A'', play_season = 2024, play_is_catchable_ball = 1,
          play_is_contested_ball = 0, play_is_drop = 0, play_is_interception_worthy = 0\<rparr>,
         \<lparr>receiver_player_id = None, play_season = 2024, play_is_catchable_ball = 0,
          play_is_contested_ball = 0, play_is_drop = 0, play_is_interception_worthy = 0\<rparr>,
         \<lparr>receiver_player_id = Some ''A'', play_season = 2024, play_is_catchable_ball = 1,
          play_is_contested_ball = 1, play_is_drop = 0, play_is_interception_worthy = 0\<rparr>],
      draft_picks =
        [\<lparr>dr_player_id = Some ''A'', dr_data = ''round 1''\<rparr>,
         \<lparr>dr_player_id = None, dr_data = ''round 2''\<rparr>,
         \<lparr>dr_player_id = None, dr_data = ''round 3''\<rparr>,
         \<lparr>dr_player_id = Some ''B'', dr_data = ''round 4''\<rparr>],
      rosters =
        [\<lparr>ro_player_id = Some ''A'', ro_season = 2023, birth_date = Some (2000, 11),
          ro_data = ''nyg''\<rparr>,
         \<lparr>ro_player_id = Some ''A'', ro_season = 2024, birth_date = Some (2000, 11),
          ro_data = ''nyg''\<rparr>,
         \<lparr>ro_player_id = Some ''B'', ro_season = 2024, birth_date = Some (1995, 3),
          ro_data = ''dal''\<rparr>],
      contract_years =
        [\<lparr>ct_player_id = ''A'', ct_season = 2024, ct_data = ''rookie deal''\<rparr>,
         \<lparr>ct_player_id = ''A'', ct_season = 2024, ct_data = ''extension''\<rparr>,
         \<lparr>ct_player_id = ''B'', ct_season = 2024, ct_data = ''veteran deal''\<rparr>]\<rparr>"

definition repeated_roster_sources :: "string sources" where
  "repeated_roster_sources =
     season_sources\<lparr>rosters := rosters season_sources @
        [\<lparr>ro_player_id = Some ''A'', ro_season = 2024, birth_date = Some (1999, 5),
          ro_data = ''practice squad''\<rparr>]\<rparr>"

definition all_positions :: "string list" where
  "all_positions = [''QB'', ''RB'', ''WR'', ''TE'']"

text \<open>Three scored rows of 24-year-old players: two receivers and a quarterback.\<close>

definition blank_composite :: composite where
  "blank_composite = \<lparr>c_air_yards_share = None, c_yptmpa = None, c_target_value = None,
     c_draft_capital_score = None, c_norm_age_risk = None, c_norm_youth_bonus = None,
     c_arrival_threshold = None, c_breakout_multiplier = None, c_norm_target_value = None,
     c_norm_target_share = None, c_norm_efficiency = None, c_arrival_multiplier = None,
     c_breakout_score = None, c_market_value_multiplier = None, c_norm_ypa_decline = None,
     c_sell_high_score = None, c_air_yards_differential = None, c_buy_low_score = None\<rparr>"

definition receiver_30_targets :: scored_row where
  "receiver_30_targets = \<lparr>base = wr_a\<lparr>targets := Some 30\<rparr>,
     derived = blank_composite\<lparr>c_breakout_score := Some 1\<rparr>\<rparr>"

definition receiver_20_targets :: scored_row where
  "receiver_20_targets = \<lparr>base = wr_a\<lparr>targets := Some 20\<rparr>,
     derived = blank_composite\<lparr>c_breakout_score := Some 3\<rparr>\<rparr>"

definition scored_quarterback :: scored_row where
  "scored_quarterback = \<lparr>base = wr_a\<lparr>position := ''QB''\<rparr>,
     derived = blank_composite\<lparr>c_breakout_score := Some 9\<rparr>\<rparr>"

section \<open>Evaluation rules\<close>

lemmas num_defs = fadd_def fsub_def fmul_def fdiv_def flt_def fle_def fgt_def fge_def
  fillna_def replace0_def clip_def clip_lower_def

lemmas stat_defs = series_mean_def series_std_def zscore_divisor_def zscore_def
  zscore_inverted_def quantile_def

lemmas metric_defs = position_group_def draft_capital_score_def years_past_apex_def
  norm_age_risk_def norm_youth_bonus_def arrival_threshold_def breakout_multiplier_def
  weighted_touches_def target_value_def norm_target_value_def norm_target_share_def
  yptmpa_def air_yards_share_def raw_efficiency_def norm_efficiency_def
  breakout_combination_def arrival_multiplier_def breakout_score_def value_threshold_def
  market_value_multiplier_def norm_ypa_decline_def sell_high_combination_def
  sell_high_score_def air_yards_differential_def air_yards_term_def target_share_term_def
  scarcity_term_def buy_low_combination_def buy_low_score_def per_touch_yards_def

lemmas trajectory_defs = add_trajectory_metrics_def sort_player_season_def set_raw_def
  set_delta_def set_norm_trajectory_def per_touch_yards_def

lemmas rate_defs = designed_rush_share_def scramble_rush_share_def total_touch_share_def
  contact_balance_def rb_elusiveness_index_def rb_drive_dependency_def workhorse_score_def
  yptmpa_def separation_index_def yac_creator_def wr_elusiveness_index_def
  receiver_drive_dependency_def true_catch_rate_def contested_catch_rate_def
  air_yards_conversion_def air_yards_share_def rec_yards_share_def rec_td_share_def
  draft_roi_def target_value_def consistency_score_def receiver_creation_adj_def
  pressure_resilience_def receiving_back_score_def rb_complete_game_def weighted_touches_def
  wopr_def dominator_rating_def per_touch_yards_def np_log_def astype_int_def

lemmas guard_defs = fgt_def flt_def fdiv_def fadd_def fmul_def fillna_def

section \<open>Z-scores of degenerate groups\<close>

text \<open>
  C1 (z-score of a group of size 1 or of zero variance is exactly 0, never NaN).  The
  code does not do this for a group with a single member: the sample deviation of one
  value is NaN, \<open>NaN != 0\<close> holds, and the z-score is divided by NaN.  In the trajectory
  scenario of the specification the running back is alone in his (position, season)
  group: his delta for season 2 is \<open>-1\<close> and his \<open>norm_trajectory\<close> is NaN, not 0.  The
  same happens to \<open>norm_age_risk\<close> of a player who is alone in his position group.
\<close>

theorem singleton_group_zscore_is_nan:
  "map efficiency_delta (add_trajectory_metrics [rb_season_1, rb_season_2]) = [None, Some (- 1)]
   \<and> map norm_trajectory (add_trajectory_metrics [rb_season_1, rb_season_2]) = [None, None]
   \<and> calculate_composite_metrics lone_rb_frame = Inr [score_row [lone_rb] lone_rb]
   \<and> years_past_apex lone_rb = Some 2.5
   \<and> c_norm_age_risk (derived (score_row [lone_rb] lone_rb)) = None
   \<and> zscore [Some (- 1)] (Some (- 1)) = None"
proof -
  have a: "map efficiency_delta (add_trajectory_metrics [rb_season_1, rb_season_2]) =
      [None, Some (- 1)]"
    by (simp add: trajectory_defs rb_season_1_def rb_season_2_def blank_row_def stat_defs num_defs)
  have b: "map norm_trajectory (add_trajectory_metrics [rb_season_1, rb_season_2]) =
      [None, None]"
    by (simp add: trajectory_defs rb_season_1_def rb_season_2_def blank_row_def stat_defs num_defs)
  have c: "calculate_composite_metrics lone_rb_frame = Inr [score_row [lone_rb] lone_rb]"
    by (simp add: calculate_composite_metrics_def lone_rb_frame_def required_cols_def
        missing_cols_def Let_def lone_rb_def blank_row_def num_defs)
  have d: "years_past_apex lone_rb = Some 2.5"
    by (simp add: years_past_apex_def lone_rb_def blank_row_def num_defs)
  have e: "c_norm_age_risk (derived (score_row [lone_rb] lone_rb)) = None"
    by (simp add: score_row_def metric_defs lone_rb_def blank_row_def stat_defs num_defs)
  have f: "zscore [Some (- 1)] (Some (- 1)) = None"
    by (simp add: stat_defs num_defs)
  from a b c d e f show ?thesis by simp
qed

section \<open>Zero denominators\<close>

lemma guarded_rate_policy:
  assumes "(metric, denominator) \<in> set (guarded_rates cols)"
  shows "(\<not> fgt (denominator r) (Some 0) \<longrightarrow> metric r = Some 0) \<and> metric r \<noteq> None"
proof -
  have contested: "(\<not> fgt (is_contested_ball r) (Some 0) \<longrightarrow> contested_catch_rate cols r = Some 0)
      \<and> contested_catch_rate cols r \<noteq> None"
    by (cases "is_contested_ball r")
       (auto simp: contested_catch_rate_def astype_int_def guard_defs
          split: if_splits option.splits)
  have touches: "weighted_touches r \<noteq> None"
    by (cases "targets r"; cases "carries r") (simp_all add: weighted_touches_def guard_defs)
  have workhorse: "(\<not> fgt (games r) (Some 0) \<longrightarrow> workhorse_score r = Some 0)
      \<and> workhorse_score r \<noteq> None"
    using touches by (auto simp: workhorse_score_def guard_defs split: option.splits)
  from assms contested workhorse show ?thesis
    unfolding guarded_rates_def
    by (auto simp: designed_rush_share_def scramble_rush_share_def total_touch_share_def
          contact_balance_def rb_elusiveness_index_def rb_drive_dependency_def yptmpa_def
          separation_index_def yac_creator_def wr_elusiveness_index_def
          receiver_drive_dependency_def true_catch_rate_def air_yards_conversion_def
          air_yards_share_def rec_yards_share_def rec_td_share_def guard_defs
        split: option.splits)
qed

lemma draft_roi_policy:
  "(\<not> fgt (draft_pick_num r) (Some 0) \<longrightarrow> draft_roi r = Some 0)
   \<and> (fantasy_points_per_game r \<noteq> None \<longrightarrow> draft_roi r \<noteq> None)"
proof -
  have "ln (p + 1) \<noteq> 0" if "0 < p" for p :: real
    using that by simp
  then show ?thesis
    by (auto simp: draft_roi_def np_log_def guard_defs split: option.splits)
qed

lemma target_value_policy:
  "(position r = ''RB'' \<and> \<not> fgt (weighted_touches r) (Some 0) \<longrightarrow> target_value r = Some 0)
   \<and> (position r \<noteq> ''RB'' \<and> \<not> fgt (targets r) (Some 0) \<longrightarrow> target_value r = Some 0)
   \<and> (fantasy_points_half_ppr r \<noteq> None \<longrightarrow> target_value r \<noteq> None)"
  by (auto simp: target_value_def weighted_touches_def guard_defs split: option.splits)

lemma consistency_score_policy:
  "(\<not> fgt (games r) (Some 8) \<longrightarrow> consistency_score r = Some 0)
   \<and> (fantasy_points_per_game r \<noteq> None \<longrightarrow> consistency_score r \<noteq> None)"
  by (auto simp: consistency_score_def replace0_def guard_defs split: option.splits)

lemma receiver_creation_adj_policy:
  "(season_age r = Some 0 \<longrightarrow> receiver_creation_adj r = Some 0)
   \<and> (season_age r \<noteq> None \<longrightarrow> receiver_creation_adj r \<noteq> None)"
  by (auto simp: receiver_creation_adj_def guard_defs split: option.splits)

lemma pressure_resilience_policy:
  "(\<not> fgt (pressure_pct r) (Some 0) \<longrightarrow> pressure_resilience r = Some 0)
   \<and> (attempts r \<noteq> Some 0 \<longrightarrow> pressure_resilience r \<noteq> None)"
  by (auto simp: pressure_resilience_def guard_defs split: option.splits)

lemma per_game_scores_defined:
  "games r \<noteq> None \<longrightarrow> receiving_back_score r \<noteq> None \<and> rb_complete_game r \<noteq> None"
proof -
  have a: "total_touch_share r \<noteq> None"
    by (auto simp: total_touch_share_def guard_defs split: option.splits)
  have b: "rb_elusiveness_index r \<noteq> None"
    by (auto simp: rb_elusiveness_index_def guard_defs split: option.splits)
  have c: "games r \<noteq> None \<longrightarrow> receiving_back_score r \<noteq> None"
    by (auto simp: receiving_back_score_def replace0_def guard_defs split: option.splits)
  from a b c show ?thesis
    by (auto simp: rb_complete_game_def replace0_def guard_defs split: option.splits)
qed

lemma combined_shares_defined: "wopr r \<noteq> None \<and> dominator_rating r \<noteq> None"
proof -
  have a: "air_yards_share r \<noteq> None"
    by (auto simp: air_yards_share_def guard_defs split: option.splits)
  have b: "rec_yards_share r \<noteq> None"
    by (auto simp: rec_yards_share_def guard_defs split: option.splits)
  have c: "rec_td_share r \<noteq> None"
    by (auto simp: rec_td_share_def guard_defs split: option.splits)
  from a b c obtain x y z where
    "air_yards_share r = Some x" "rec_yards_share r = Some y" "rec_td_share r = Some z"
    by auto
  then show ?thesis
    by (cases "target_share r") (simp_all add: wopr_def dominator_rating_def guard_defs)
qed

lemma per_touch_yards_policy:
  "(position r = ''RB'' \<and> carries r = Some 0 \<longrightarrow> per_touch_yards r = rushing_yards r)
   \<and> (position r \<noteq> ''RB'' \<and> targets r = Some 0 \<longrightarrow> per_touch_yards r = receiving_yards r)
   \<and> (position r = ''RB'' \<and> rushing_yards r \<noteq> None \<and> carries r \<noteq> None
        \<longrightarrow> per_touch_yards r \<noteq> None)
   \<and> (position r \<noteq> ''RB'' \<and> receiving_yards r \<noteq> None \<and> targets r \<noteq> None
        \<longrightarrow> per_touch_yards r \<noteq> None)"
  by (auto simp: per_touch_yards_def replace0_def fdiv_def split: option.splits)

text \<open>
  C2, as amended.  For every row and each of the eighteen columns of \<open>guarded_rates\<close>:
  the column is exactly 0 when its denominator is not a positive number (0, negative or
  null), and it is never NaN and never the quotient of a division by zero.
  \<open>draft_roi\<close>, \<open>target_value\<close>, \<open>consistency_score\<close> and \<open>receiver_creation_adj\<close> are 0 on
  a zero denominator as well, and each is a number whenever the input that it does not
  fill is present: \<open>fantasy_points_per_game\<close> for the first and the third,
  \<open>fantasy_points_half_ppr\<close> for the second, \<open>season_age\<close> for the fourth.
  \<open>pressure_resilience\<close> is 0 on a zero pressure rate and a number whenever \<open>attempts\<close> is
  not 0.  The two per-game scores are numbers whenever \<open>games\<close> is present, and the two
  combined shares \<open>wopr\<close> and \<open>dominator_rating\<close> always are.
  \<open>raw_per_touch_yards\<close> divides by 1 when its denominator (carries of a running back,
  targets of anyone else) is 0: it is then the yardage itself, 0 only when the yardage
  is 0, and it is a number whenever yardage and denominator are both present.
\<close>

theorem zero_denominator_policy:
  "(\<forall>(metric, denominator) \<in> set (guarded_rates cols).
       (\<not> fgt (denominator r) (Some 0) \<longrightarrow> metric r = Some 0) \<and> metric r \<noteq> None)
   \<and> (\<not> fgt (draft_pick_num r) (Some 0) \<longrightarrow> draft_roi r = Some 0)
   \<and> (fantasy_points_per_game r \<noteq> None \<longrightarrow> draft_roi r \<noteq> None)
   \<and> (position r = ''RB'' \<and> \<not> fgt (weighted_touches r) (Some 0) \<longrightarrow> target_value r = Some 0)
   \<and> (position r \<noteq> ''RB'' \<and> \<not> fgt (targets r) (Some 0) \<longrightarrow> target_value r = Some 0)
   \<and> (fantasy_points_half_ppr r \<noteq> None \<longrightarrow> target_value r \<noteq> None)
   \<and> (\<not> fgt (games r) (Some 8) \<longrightarrow> consistency_score r = Some 0)
   \<and> (fantasy_points_per_game r \<noteq> None \<longrightarrow> consistency_score r \<noteq> None)
   \<and> (season_age r = Some 0 \<longrightarrow> receiver_creation_adj r = Some 0)
   \<and> (season_age r \<noteq> None \<longrightarrow> receiver_creation_adj r \<noteq> None)
   \<and> (\<not> fgt (pressure_pct r) (Some 0) \<longrightarrow> pressure_resilience r = Some 0)
   \<and> (attempts r \<noteq> Some 0 \<longrightarrow> pressure_resilience r \<noteq> None)
   \<and> (games r \<noteq> None \<longrightarrow> receiving_back_score r \<noteq> None \<and> rb_complete_game r \<noteq> None)
   \<and> wopr r \<noteq> None \<and> dominator_rating r \<noteq> None
   \<and> (position r = ''RB'' \<and> carries r = Some 0 \<longrightarrow> per_touch_yards r = rushing_yards r)
   \<and> (position r \<noteq> ''RB'' \<and> targets r = Some 0 \<longrightarrow> per_touch_yards r = receiving_yards r)
   \<and> (position r = ''RB'' \<and> rushing_yards r \<noteq> None \<and> carries r \<noteq> None
        \<longrightarrow> per_touch_yards r \<noteq> None)
   \<and> (position r \<noteq> ''RB'' \<and> receiving_yards r \<noteq> None \<and> targets r \<noteq> None
        \<longrightarrow> per_touch_yards r \<noteq> None)"
proof -
  have g: "\<forall>(metric, denominator) \<in> set (guarded_rates cols).
       (\<not> fgt (denominator r) (Some 0) \<longrightarrow> metric r = Some 0) \<and> metric r \<noteq> None"
    using guarded_rate_policy by blast
  show ?thesis
    using g draft_roi_policy [of r] target_value_policy [of r] consistency_score_policy [of r]
      receiver_creation_adj_policy [of r] pressure_resilience_policy [of r]
      per_game_scores_defined [of r] combined_shares_defined [of r]
      per_touch_yards_policy [of r]
    by - (intro conjI, (elim conjE, assumption)+)
qed

theorem zero_denominator_policy_witness:
  "list_all (\<lambda>(metric, denominator).
       denominator idle_receiver = Some 0 \<and> metric idle_receiver = Some 0)
     (guarded_rates [''is_contested_ball''])
   \<and> per_touch_yards idle_receiver = Some 12
   \<and> map (\<lambda>(metric, denominator). metric starter) (guarded_rates [''is_contested_ball'']) =
       [Some 0.1, Some 0.05, Some 0.3, Some 1.5, Some 0.2, Some 0.25, Some 20.25, Some 0.8,
        Some 0.5, Some 0.6, Some 0.1, Some 0.4, Some (5 / 6), Some 5, Some 0.5, Some 1.6,
        Some 0.1, Some 0.2]
   \<and> draft_roi starter = Some (12 / ln 11) \<and> target_value starter = Some 0.5
   \<and> consistency_score starter = Some 0.75 \<and> receiver_creation_adj starter = Some 0.64
   \<and> pressure_resilience starter = Some 1 \<and> receiving_back_score starter = Some 4.125
   \<and> rb_complete_game starter = Some 5.4625 \<and> wopr starter = Some 1.42
   \<and> dominator_rating starter = Some 0.15 \<and> per_touch_yards starter = Some 4.5"
proof -
  let ?cols = "[''is_contested_ball'']"
  have zero: "\<forall>(metric, denominator) \<in> set (guarded_rates ?cols).
      denominator idle_receiver = Some 0"
    by (simp add: guarded_rates_def idle_receiver_def num_defs)
  from zero_denominator_policy [of ?cols idle_receiver]
  have pol: "\<forall>(metric, denominator) \<in> set (guarded_rates ?cols).
      (\<not> fgt (denominator idle_receiver) (Some 0) \<longrightarrow> metric idle_receiver = Some 0)
      \<and> metric idle_receiver \<noteq> None"
    by (elim conjE)
  from zero_denominator_policy [of ?cols idle_receiver]
  have yards: "position idle_receiver \<noteq> ''RB'' \<and> targets idle_receiver = Some 0 \<longrightarrow>
      per_touch_yards idle_receiver = receiving_yards idle_receiver"
    by (elim conjE)
  from zero pol have a: "list_all (\<lambda>(metric, denominator).
       denominator idle_receiver = Some 0 \<and> metric idle_receiver = Some 0)
     (guarded_rates ?cols)"
    unfolding list_all_iff by (fastforce simp: fgt_def flt_def)
  from yards have b: "per_touch_yards idle_receiver = Some 12"
    by (simp add: idle_receiver_def)
  have c: "map (\<lambda>(metric, denominator). metric starter) (guarded_rates ?cols) =
       [Some 0.1, Some 0.05, Some 0.3, Some 1.5, Some 0.2, Some 0.25, Some 20.25, Some 0.8,
        Some 0.5, Some 0.6, Some 0.1, Some 0.4, Some (5 / 6), Some 5, Some 0.5, Some 1.6,
        Some 0.1, Some 0.2]"
    by (simp add: guarded_rates_def rate_defs starter_def num_defs)
  have d: "draft_roi starter = Some (12 / ln 11)" "target_value starter = Some 0.5"
    "consistency_score starter = Some 0.75" "receiver_creation_adj starter = Some 0.64"
    "pressure_resilience starter = Some 1" "receiving_back_score starter = Some 4.125"
    "rb_complete_game starter = Some 5.4625" "wopr starter = Some 1.42"
    "dominator_rating starter = Some 0.15" "per_touch_yards starter = Some 4.5"
    by (simp_all add: rate_defs starter_def num_defs)
  from a b c d show ?thesis by (intro conjI)
qed

text \<open>
  The claim as stated fails.  With no carry and 5 rushing yards the running back's
  \<open>raw_per_touch_yards\<close> is 5, and the quarterback, whose targets and receiving yards
  are null, gets NaN.  \<open>pressure_resilience\<close> tests the pressure rate only: with no
  attempt it divides by zero (\<open>-inf\<close> in numpy, no finite number here).
  \<open>receiver_creation_adj\<close> fills a null \<open>season_age\<close> in its test and not in its
  division, and \<open>target_value\<close>, \<open>consistency_score\<close> and \<open>draft_roi\<close> do not fill
  their numerators: each is NaN on the null input.
\<close>

theorem zero_denominator_counterexample:
  "position lateral_rb = ''RB'' \<and> carries lateral_rb = Some 0
   \<and> per_touch_yards lateral_rb = Some 5
   \<and> games quarterback = Some 16 \<and> per_touch_yards quarterback = None
   \<and> attempts sacked_passer = Some 0 \<and> pressure_resilience sacked_passer = None
   \<and> receiver_creation_adj rb_season_1 = None
   \<and> target_value rb_season_1 = None
   \<and> consistency_score rb_season_1 = None
   \<and> draft_pick_num drafted_rb = Some 10 \<and> draft_roi drafted_rb = None"
  by (simp add: rate_defs lateral_rb_def quarterback_def sacked_passer_def rb_season_1_def
      drafted_rb_def blank_row_def num_defs)

section \<open>Validation of the team-aggregate columns\<close>

lemma set_missing_cols: "set (missing_cols df) = set required_cols - set (columns df)"
  by (auto simp: missing_cols_def)

text \<open>
  C3, as amended.  When the table has a \<open>games\<close> column: if one of the seven required
  columns is absent the call fails with the \<open>ValueError\<close> that lists exactly the absent
  ones, each once, and returns no table; if all seven are present the call raises no
  \<open>ValueError\<close>.  The function is applied to the table as a value and builds its result
  from a filtered copy, so the caller's table is not changed.
\<close>

theorem missing_team_columns_error:
  assumes "''games'' \<in> set (columns df)"
  shows "(if \<exists>c \<in> set required_cols. c \<notin> set (columns df)
          then calculate_composite_metrics df = Inl (ValueError (missing_cols df))
               \<and> set (missing_cols df) = set required_cols - set (columns df)
               \<and> distinct (missing_cols df)
          else (\<forall>m. calculate_composite_metrics df \<noteq> Inl (ValueError m)))"
proof (cases "\<exists>c \<in> set required_cols. c \<notin> set (columns df)")
  case True
  then have ne: "missing_cols df \<noteq> []"
    by (auto simp: missing_cols_def filter_empty_conv)
  have d: "distinct (missing_cols df)"
    unfolding missing_cols_def by (rule distinct_filter) (simp add: required_cols_def)
  from True ne d assms show ?thesis
    by (simp add: calculate_composite_metrics_def Let_def set_missing_cols)
next
  case False
  then have "missing_cols df = []"
    by (auto simp: missing_cols_def filter_empty_conv)
  with False assms show ?thesis
    by (simp add: calculate_composite_metrics_def Let_def)
qed

theorem missing_team_columns_error_witness:
  "''games'' \<in> set (columns frame_missing_two)
   \<and> calculate_composite_metrics frame_missing_two =
       Inl (ValueError [''team_carries'', ''team_attempts''])
   \<and> ''games'' \<in> set (columns wr_frame)
   \<and> calculate_composite_metrics wr_frame \<noteq> Inl (ValueError [])"
proof -
  have g1: "''games'' \<in> set (columns frame_missing_two)"
    by (simp add: frame_missing_two_def)
  have g2: "''games'' \<in> set (columns wr_frame)"
    by (simp add: wr_frame_def)
  have m: "missing_cols frame_missing_two = [''team_carries'', ''team_attempts'']"
    by (simp add: missing_cols_def required_cols_def frame_missing_two_def)
  from missing_team_columns_error [OF g1] m
  have "calculate_composite_metrics frame_missing_two =
       Inl (ValueError [''team_carries'', ''team_attempts''])"
    by (simp add: required_cols_def frame_missing_two_def split: if_splits)
  moreover from missing_team_columns_error [OF g2]
  have "calculate_composite_metrics wr_frame \<noteq> Inl (ValueError [])"
    by (simp add: required_cols_def wr_frame_def split: if_splits)
  ultimately show ?thesis using g1 g2 by simp
qed

text \<open>
  The claim as stated fails on a table that lacks \<open>games\<close> as well: the row filter runs
  before the validation and raises \<open>KeyError\<close>, which names \<open>games\<close> and not the missing
  team column.
\<close>

theorem missing_team_columns_counterexample:
  "''team_carries'' \<notin> set (columns frame_without_games)
   \<and> calculate_composite_metrics frame_without_games = Inl (KeyError ''games'')"
  by (simp add: calculate_composite_metrics_def frame_without_games_def)

section \<open>Weights of the composite scores\<close>

lemma fadd_zero_left: "fadd (Some 0) a = a"
  by (simp add: fadd_def split: option.splits)

lemma breakout_is_weighted_sum:
  "breakout_combination a b c d e =
     weighted_sum breakout_weights [a, b, c, d, fsub (Some 1) (fillna 0 e)]"
  by (simp add: breakout_combination_def weighted_sum_def breakout_weights_def fadd_zero_left)

lemma sell_high_is_weighted_sum:
  "sell_high_combination a b c d = weighted_sum sell_high_weights [a, b, c, d]"
  by (simp add: sell_high_combination_def weighted_sum_def sell_high_weights_def
      fadd_zero_left)

lemma buy_low_is_weighted_sum:
  "buy_low_combination a b c d e = weighted_sum buy_low_weights [a, b, c, d, e]"
  by (simp add: buy_low_combination_def weighted_sum_def buy_low_weights_def fadd_zero_left)

text \<open>
  C4, as amended.  Each score is the weighted sum of its terms with the listed weights
  (the fifth term of \<open>breakout_score\<close> is \<open>1 - norm_target_share\<close>).  The weights of
  \<open>breakout_score\<close> and of \<open>buy_low_score\<close> sum to 1; those of \<open>sell_high_score\<close> sum to
  \<open>-0.10\<close>, and it is their absolute values that sum to 1.
\<close>

theorem composite_weight_sums:
  "breakout_combination a b c d e =
     weighted_sum breakout_weights [a, b, c, d, fsub (Some 1) (fillna 0 e)]
   \<and> sum_list breakout_weights = 1
   \<and> buy_low_combination a b c d e = weighted_sum buy_low_weights [a, b, c, d, e]
   \<and> sum_list buy_low_weights = 1
   \<and> sell_high_combination a b c d = weighted_sum sell_high_weights [a, b, c, d]
   \<and> sum_list sell_high_weights = - (1 / 10)
   \<and> sum_list (map abs sell_high_weights) = 1"
  by (simp add: breakout_is_weighted_sum sell_high_is_weighted_sum buy_low_is_weighted_sum)
     (simp add: breakout_weights_def sell_high_weights_def buy_low_weights_def)

theorem composite_weight_sums_witness:
  "breakout_combination (Some 1) (Some 1) (Some 1) (Some 1) (Some 0) = Some 1
   \<and> buy_low_combination (Some 1) (Some 1) (Some 1) (Some 1) (Some 1) = Some 1
   \<and> sell_high_combination (Some 1) (Some 1) (Some 1) (Some 1) = Some (- (1 / 10))"
  using composite_weight_sums [of "Some 1" "Some 1" "Some 1" "Some 1" "Some 0"]
    composite_weight_sums [of "Some 1" "Some 1" "Some 1" "Some 1" "Some 1"]
  by (simp add: weighted_sum_def breakout_weights_def sell_high_weights_def
      buy_low_weights_def num_defs)

text \<open>
  The claim as stated fails for \<open>sell_high_score\<close>: with every input equal to 1 the
  combination is \<open>-0.10\<close>, the sum of its weights.
\<close>

theorem sell_high_weights_counterexample:
  "sell_high_combination (Some 1) (Some 1) (Some 1) (Some 1) = Some (- (1 / 10))
   \<and> sum_list sell_high_weights \<noteq> 1"
  by (simp add: sell_high_combination_def sell_high_weights_def fadd_def fmul_def)

section \<open>Trajectory module\<close>

lemma length_groupby_shift: "length (groupby_shift seen kvs) = length kvs"
  by (induction kvs arbitrary: seen) auto

lemma groupby_shift_prev_same:
  "i < length kvs \<Longrightarrow> 0 < i \<Longrightarrow> fst (kvs ! (i - 1)) = fst (kvs ! i) \<Longrightarrow>
   groupby_shift seen kvs ! i = snd (kvs ! (i - 1))"
proof (induction kvs arbitrary: seen i)
  case Nil
  then show ?case by simp
next
  case (Cons kv rest)
  obtain k v where kv: "kv = (k, v)" by (cases kv)
  from Cons.prems obtain i' where i': "i = Suc i'" by (cases i) auto
  show ?case
  proof (cases i')
    case 0
    with Cons.prems i' kv obtain v' rest' where r: "rest = (k, v') # rest'"
      by (cases rest) auto
    with 0 i' kv show ?thesis by simp
  next
    case (Suc i'')
    with Cons.prems i' have "groupby_shift (seen(k \<mapsto> v)) rest ! i' = snd (rest ! (i' - 1))"
      by (intro Cons.IH) auto
    with Suc i' kv show ?thesis by simp
  qed
qed

lemma groupby_shift_first:
  "i < length kvs \<Longrightarrow> \<forall>j<i. fst (kvs ! j) \<noteq> fst (kvs ! i) \<Longrightarrow>
   groupby_shift seen kvs ! i = (case seen (fst (kvs ! i)) of None \<Rightarrow> None | Some p \<Rightarrow> p)"
proof (induction kvs arbitrary: seen i)
  case Nil
  then show ?case by simp
next
  case (Cons kv rest)
  obtain k v where kv: "kv = (k, v)" by (cases kv)
  show ?case
  proof (cases i)
    case 0
    with kv show ?thesis by simp
  next
    case (Suc i')
    from Cons.prems Suc have len: "i' < length rest" by simp
    from Cons.prems Suc kv have ne: "k \<noteq> fst (rest ! i')" by fastforce
    have "\<forall>j<i'. fst (rest ! j) \<noteq> fst (rest ! i')"
    proof (intro allI impI)
      fix j assume "j < i'"
      then have "Suc j < i" using Suc by simp
      with Cons.prems(2) have "fst ((kv # rest) ! Suc j) \<noteq> fst ((kv # rest) ! i)" by blast
      with Suc show "fst (rest ! j) \<noteq> fst (rest ! i')" by simp
    qed
    with len have "groupby_shift (seen(k \<mapsto> v)) rest ! i' =
        (case (seen(k \<mapsto> v)) (fst (rest ! i')) of None \<Rightarrow> None | Some p \<Rightarrow> p)"
      by (rule Cons.IH)
    with ne Suc kv show ?thesis by simp
  qed
qed

lemma sorted_keys_no_earlier:
  fixes ks :: "('a::linorder) list"
  assumes "sorted ks" "i < length ks" "i = 0 \<or> ks ! (i - 1) \<noteq> ks ! i"
  shows "\<forall>j<i. ks ! j \<noteq> ks ! i"
proof (intro allI impI)
  fix j assume j: "j < i"
  with assms(3) have ne: "ks ! (i - 1) \<noteq> ks ! i" by auto
  from j assms have "ks ! j \<le> ks ! (i - 1)" by (intro sorted_nth_mono) auto
  moreover from j assms have "ks ! (i - 1) \<le> ks ! i" by (intro sorted_nth_mono) auto
  ultimately show "ks ! j \<noteq> ks ! i" using ne by auto
qed

lemma sorted_player_ids:
  "sorted (map (\<lambda>r. (player_id r, season r)) tbl) \<Longrightarrow> sorted (map player_id tbl)"
  by (induction tbl) (auto simp: less_eq_prod_def)

lemma per_touch_yards_set_raw [simp]: "raw_per_touch_yards (set_raw r) = per_touch_yards r"
  and player_id_set_raw [simp]: "player_id (set_raw r) = player_id r"
  and season_set_raw [simp]: "season (set_raw r) = season r"
  by (simp_all add: set_raw_def)

lemma fields_set_delta [simp]:
  "raw_per_touch_yards (set_delta r p) = raw_per_touch_yards r"
  "player_id (set_delta r p) = player_id r"
  "season (set_delta r p) = season r"
  "prev_efficiency (set_delta r p) = p"
  "efficiency_delta (set_delta r p) = fsub (raw_per_touch_yards r) p"
  by (simp_all add: set_delta_def)

lemma fields_set_norm_trajectory [simp]:
  "raw_per_touch_yards (set_norm_trajectory t r) = raw_per_touch_yards r"
  "player_id (set_norm_trajectory t r) = player_id r"
  "season (set_norm_trajectory t r) = season r"
  "prev_efficiency (set_norm_trajectory t r) = prev_efficiency r"
  "efficiency_delta (set_norm_trajectory t r) = efficiency_delta r"
  by (simp_all add: set_norm_trajectory_def)

lemma add_trajectory_metrics_nth:
  assumes "i < length df"
  shows "length (add_trajectory_metrics df) = length df"
    and "player_id (add_trajectory_metrics df ! i) = player_id (sort_player_season df ! i)"
    and "season (add_trajectory_metrics df ! i) = season (sort_player_season df ! i)"
    and "raw_per_touch_yards (add_trajectory_metrics df ! i) = per_touch_yards (sort_player_season df ! i)"
    and "prev_efficiency (add_trajectory_metrics df ! i) = shifted (sort_player_season df) ! i"
    and "efficiency_delta (add_trajectory_metrics df ! i) =
           fsub (per_touch_yards (sort_player_season df ! i)) (shifted (sort_player_season df) ! i)"
proof -
  have len0: "length (sort_player_season df) = length df"
    by (simp add: sort_player_season_def)
  have m: "map (\<lambda>r. (player_id r, raw_per_touch_yards r)) (map set_raw s) =
           map (\<lambda>r. (player_id r, per_touch_yards r)) s" for s
    by simp
  show "length (add_trajectory_metrics df) = length df"
    by (simp add: add_trajectory_metrics_def Let_def length_groupby_shift len0)
  from assms len0 show "player_id (add_trajectory_metrics df ! i) = player_id (sort_player_season df ! i)"
    by (simp add: add_trajectory_metrics_def Let_def length_groupby_shift)
  from assms len0 show "season (add_trajectory_metrics df ! i) = season (sort_player_season df ! i)"
    by (simp add: add_trajectory_metrics_def Let_def length_groupby_shift)
  from assms len0 show "raw_per_touch_yards (add_trajectory_metrics df ! i) = per_touch_yards (sort_player_season df ! i)"
    by (simp add: add_trajectory_metrics_def Let_def length_groupby_shift)
  from assms len0 show "prev_efficiency (add_trajectory_metrics df ! i) = shifted (sort_player_season df) ! i"
    by (simp add: add_trajectory_metrics_def Let_def length_groupby_shift shifted_def m del: map_map)
  from assms len0 show "efficiency_delta (add_trajectory_metrics df ! i) =
           fsub (per_touch_yards (sort_player_season df ! i)) (shifted (sort_player_season df) ! i)"
    by (simp add: add_trajectory_metrics_def Let_def length_groupby_shift shifted_def m del: map_map)
qed

lemma shifted_sorted:
  assumes "sorted (map player_id s0)" "i < length s0"
  shows "shifted s0 ! i =
     (if 0 < i \<and> player_id (s0 ! (i - 1)) = player_id (s0 ! i)
      then per_touch_yards (s0 ! (i - 1)) else None)"
proof (cases "0 < i \<and> player_id (s0 ! (i - 1)) = player_id (s0 ! i)")
  case True
  with assms(2) show ?thesis
    unfolding shifted_def by (subst groupby_shift_prev_same) auto
next
  case False
  with assms have "i = 0 \<or> map player_id s0 ! (i - 1) \<noteq> map player_id s0 ! i" by auto
  with assms have "\<forall>j<i. map player_id s0 ! j \<noteq> map player_id s0 ! i"
    by (intro sorted_keys_no_earlier) auto
  with assms(2) have "\<forall>j<i. fst (map (\<lambda>r. (player_id r, per_touch_yards r)) s0 ! j) \<noteq>
       fst (map (\<lambda>r. (player_id r, per_touch_yards r)) s0 ! i)" by auto
  with assms(2) False show ?thesis
    unfolding shifted_def by (subst groupby_shift_first) auto
qed

lemma sorted_sort_player_season:
  "sorted (map (\<lambda>r. (player_id r, season r)) (sort_player_season df))"
  by (simp add: sort_player_season_def)

lemma keys_add_trajectory_metrics:
  "map (\<lambda>r. (player_id r, season r)) (add_trajectory_metrics df) =
   map (\<lambda>r. (player_id r, season r)) (sort_player_season df)"
proof (rule nth_equalityI)
  have len0: "length (sort_player_season df) = length df"
    by (simp add: sort_player_season_def)
  have len: "length (add_trajectory_metrics df) = length df"
    by (simp add: add_trajectory_metrics_def Let_def length_groupby_shift len0)
  show "length (map (\<lambda>r. (player_id r, season r)) (add_trajectory_metrics df)) =
        length (map (\<lambda>r. (player_id r, season r)) (sort_player_season df))"
    by (simp add: len len0)
  fix i assume "i < length (map (\<lambda>r. (player_id r, season r)) (add_trajectory_metrics df))"
  then have i: "i < length df" by (simp add: len)
  then show "map (\<lambda>r. (player_id r, season r)) (add_trajectory_metrics df) ! i =
             map (\<lambda>r. (player_id r, season r)) (sort_player_season df) ! i"
    by (simp add: len len0 add_trajectory_metrics_nth(2) add_trajectory_metrics_nth(3))
qed

lemma map_insort_key: "map f (insort_key f x xs) = insort (f x) (map f xs)"
  by (induction xs) auto

lemma map_sort_key: "map f (sort_key f xs) = sort (map f xs)"
  by (induction xs) (auto simp: map_insort_key)

lemma distinct_keys_add_trajectory_metrics:
  assumes "distinct (map (\<lambda>r. (player_id r, season r)) df)"
  shows "distinct (map (\<lambda>r. (player_id r, season r)) (add_trajectory_metrics df))"
  using assms
  by (simp only: keys_add_trajectory_metrics) (simp add: sort_player_season_def map_sort_key)

text \<open>
  C9, as amended.  For a table in which no (player_id, season) occurs twice: the output
  of \<open>add_trajectory_metrics\<close> holds the rows of the input in ascending (player_id,
  season) order.  \<open>prev_efficiency\<close> of a row is \<open>raw_per_touch_yards\<close> of the row of the
  same player's immediately preceding season, the one with the greatest season below the
  row's own, and \<open>efficiency_delta\<close> is the difference of the two rates; a value never
  comes from another player.  On the row of a player's first season both are null.
\<close>

theorem add_trajectory_metrics_shift_within_player:
  assumes i: "i < length (add_trajectory_metrics df)"
      and keys: "distinct (map (\<lambda>r. (player_id r, season r)) df)"
  shows "sorted (map (\<lambda>r. (player_id r, season r)) (add_trajectory_metrics df))
     \<and> mset (map (\<lambda>r. (player_id r, season r)) (add_trajectory_metrics df)) =
         mset (map (\<lambda>r. (player_id r, season r)) df)
     \<and> prev_efficiency (add_trajectory_metrics df ! i) =
         (if 0 < i \<and> player_id (add_trajectory_metrics df ! (i - 1)) =
                       player_id (add_trajectory_metrics df ! i)
          then raw_per_touch_yards (add_trajectory_metrics df ! (i - 1)) else None)
     \<and> efficiency_delta (add_trajectory_metrics df ! i) =
         fsub (raw_per_touch_yards (add_trajectory_metrics df ! i))
              (prev_efficiency (add_trajectory_metrics df ! i))
     \<and> (\<forall>j<length (add_trajectory_metrics df).
           player_id (add_trajectory_metrics df ! j) = player_id (add_trajectory_metrics df ! i)
           \<and> season (add_trajectory_metrics df ! j) < season (add_trajectory_metrics df ! i)
           \<and> (\<forall>k<length (add_trajectory_metrics df).
                  player_id (add_trajectory_metrics df ! k) =
                    player_id (add_trajectory_metrics df ! i)
                  \<longrightarrow> \<not> (season (add_trajectory_metrics df ! j)
                             < season (add_trajectory_metrics df ! k)
                         \<and> season (add_trajectory_metrics df ! k)
                             < season (add_trajectory_metrics df ! i)))
           \<longrightarrow> prev_efficiency (add_trajectory_metrics df ! i) =
                 raw_per_touch_yards (add_trajectory_metrics df ! j)
               \<and> efficiency_delta (add_trajectory_metrics df ! i) =
                 fsub (raw_per_touch_yards (add_trajectory_metrics df ! i))
                      (raw_per_touch_yards (add_trajectory_metrics df ! j)))
     \<and> ((\<forall>j<length (add_trajectory_metrics df).
            player_id (add_trajectory_metrics df ! j) = player_id (add_trajectory_metrics df ! i)
            \<longrightarrow> season (add_trajectory_metrics df ! i) \<le> season (add_trajectory_metrics df ! j))
         \<longrightarrow> prev_efficiency (add_trajectory_metrics df ! i) = None
           \<and> efficiency_delta (add_trajectory_metrics df ! i) = None)"
proof -
  let ?out = "add_trajectory_metrics df"
  let ?s0 = "sort_player_season df"
  let ?key = "\<lambda>r. (player_id r, season r)"
  have len0: "length ?s0 = length df" by (simp add: sort_player_season_def)
  have len: "length ?out = length df"
    by (simp add: add_trajectory_metrics_def Let_def length_groupby_shift len0)
  with i have i': "i < length df" by simp
  have srt: "sorted (map ?key ?out)"
    by (simp only: keys_add_trajectory_metrics sorted_sort_player_season)
  have dst: "distinct (map ?key ?out)"
    using keys by (rule distinct_keys_add_trajectory_metrics)
  have perm: "mset (map ?key ?out) = mset (map ?key df)"
    by (simp only: keys_add_trajectory_metrics) (simp add: sort_player_season_def)
  have pid: "player_id (?out ! j) = player_id (?s0 ! j)" if "j < length df" for j
    using that by (rule add_trajectory_metrics_nth(2))
  have raw: "raw_per_touch_yards (?out ! j) = per_touch_yards (?s0 ! j)" if "j < length df" for j
    using that by (rule add_trajectory_metrics_nth(4))
  have im1: "i - 1 < length df" using i' by simp
  have "prev_efficiency (?out ! i) = shifted ?s0 ! i"
    using i' by (rule add_trajectory_metrics_nth(5))
  also have "\<dots> = (if 0 < i \<and> player_id (?s0 ! (i - 1)) = player_id (?s0 ! i)
                    then per_touch_yards (?s0 ! (i - 1)) else None)"
    using i' len0 sorted_sort_player_season [of df]
    by (intro shifted_sorted sorted_player_ids) simp_all
  finally have "prev_efficiency (?out ! i) =
      (if 0 < i \<and> player_id (?s0 ! (i - 1)) = player_id (?s0 ! i)
       then per_touch_yards (?s0 ! (i - 1)) else None)" .
  then have prev: "prev_efficiency (?out ! i) =
      (if 0 < i \<and> player_id (?out ! (i - 1)) = player_id (?out ! i)
       then raw_per_touch_yards (?out ! (i - 1)) else None)"
    by (simp only: pid [OF i'] pid [OF im1] raw [OF im1])
  have delta: "efficiency_delta (?out ! i) =
      fsub (raw_per_touch_yards (?out ! i)) (prev_efficiency (?out ! i))"
    using add_trajectory_metrics_nth(6) [OF i'] add_trajectory_metrics_nth(5) [OF i'] raw [OF i']
    by simp
  have key_nth: "map ?key ?out ! j = (player_id (?out ! j), season (?out ! j))"
    if "j < length ?out" for j
    using that by simp
  have mono: "(player_id (?out ! a), season (?out ! a)) \<le> (player_id (?out ! b), season (?out ! b))"
    if "a \<le> b" "b < length ?out" for a b
  proof -
    from that srt have "map ?key ?out ! a \<le> map ?key ?out ! b"
      by (intro sorted_nth_mono) auto
    with that show ?thesis by simp
  qed
  have apart: "(player_id (?out ! a), season (?out ! a)) \<noteq> (player_id (?out ! b), season (?out ! b))"
    if "a \<noteq> b" "a < length ?out" "b < length ?out" for a b
  proof -
    from dst have "\<forall>a<length (map ?key ?out). \<forall>b<length (map ?key ?out).
        a \<noteq> b \<longrightarrow> map ?key ?out ! a \<noteq> map ?key ?out ! b"
      by (simp only: distinct_conv_nth)
    with that have "map ?key ?out ! a \<noteq> map ?key ?out ! b" by simp
    with that show ?thesis by simp
  qed
  have preceding: "prev_efficiency (?out ! i) = raw_per_touch_yards (?out ! j)
      \<and> efficiency_delta (?out ! i) =
          fsub (raw_per_touch_yards (?out ! i)) (raw_per_touch_yards (?out ! j))"
    if j: "j < length ?out"
      and same: "player_id (?out ! j) = player_id (?out ! i)"
      and before: "season (?out ! j) < season (?out ! i)"
      and none_between: "\<forall>k<length ?out. player_id (?out ! k) = player_id (?out ! i)
           \<longrightarrow> \<not> (season (?out ! j) < season (?out ! k) \<and> season (?out ! k) < season (?out ! i))"
    for j
  proof -
    have "j < i"
    proof (rule ccontr)
      assume "\<not> j < i"
      then have "i \<le> j" by simp
      from mono [OF this j] same before show False
        by (auto simp: less_eq_prod_def)
    qed
    then have pos: "0 < i" and jm: "j \<le> i - 1" by simp_all
    have m: "i - 1 < length ?out" using i by simp
    from mono [OF jm m] same
    have lo: "player_id (?out ! i) \<le> player_id (?out ! (i - 1))"
      by (auto simp: less_eq_prod_def)
    from mono [of "i - 1" i] i
    have hi: "player_id (?out ! (i - 1)) \<le> player_id (?out ! i)"
      by (auto simp: less_eq_prod_def)
    from lo hi have pm: "player_id (?out ! (i - 1)) = player_id (?out ! i)" by simp
    have "i - 1 = j"
    proof (rule ccontr)
      assume ne: "i - 1 \<noteq> j"
      from mono [OF jm m] same pm have "season (?out ! j) \<le> season (?out ! (i - 1))"
        by (auto simp: less_eq_prod_def)
      moreover from apart [OF ne m j] same pm
      have "season (?out ! (i - 1)) \<noteq> season (?out ! j)" by simp
      ultimately have a: "season (?out ! j) < season (?out ! (i - 1))" by simp
      from mono [of "i - 1" i] i pm have "season (?out ! (i - 1)) \<le> season (?out ! i)"
        by (auto simp: less_eq_prod_def)
      moreover from pos have "i - 1 \<noteq> i" by auto
      from apart [OF this m i] pm
      have "season (?out ! (i - 1)) \<noteq> season (?out ! i)" by simp
      ultimately have b: "season (?out ! (i - 1)) < season (?out ! i)" by simp
      from none_between m pm a b show False by blast
    qed
    with prev pos pm have p: "prev_efficiency (?out ! i) = raw_per_touch_yards (?out ! j)"
      by simp
    with delta show ?thesis by simp
  qed
  have first: "prev_efficiency (?out ! i) = None \<and> efficiency_delta (?out ! i) = None"
    if h: "\<forall>j<length ?out. player_id (?out ! j) = player_id (?out ! i)
             \<longrightarrow> season (?out ! i) \<le> season (?out ! j)"
  proof -
    have "\<not> (0 < i \<and> player_id (?out ! (i - 1)) = player_id (?out ! i))"
    proof
      assume a: "0 < i \<and> player_id (?out ! (i - 1)) = player_id (?out ! i)"
      have m: "i - 1 < length ?out" using i by simp
      from h m a have le: "season (?out ! i) \<le> season (?out ! (i - 1))" by blast
      from mono [of "i - 1" i] i a have "season (?out ! (i - 1)) \<le> season (?out ! i)"
        by (auto simp: less_eq_prod_def)
      with le have eq: "season (?out ! (i - 1)) = season (?out ! i)" by simp
      from a have "i - 1 \<noteq> i" by auto
      from apart [OF this m i] a eq show False by simp
    qed
    with prev have "prev_efficiency (?out ! i) = None" by (auto split: if_splits)
    with delta show ?thesis by (simp add: fsub_def split: option.splits)
  qed
  from srt perm prev delta preceding first show ?thesis by blast
qed

theorem add_trajectory_metrics_shift_witness:
  "distinct (map (\<lambda>r. (player_id r, season r)) [other_rb, rb_season_2, rb_season_1])
   \<and> map (\<lambda>r. (player_id r, season r))
         (add_trajectory_metrics [other_rb, rb_season_2, rb_season_1]) =
       [(''P'', 1), (''P'', 2), (''Q'', 2)]
   \<and> map raw_per_touch_yards (add_trajectory_metrics [other_rb, rb_season_2, rb_season_1]) =
       [Some 4, Some 3, Some 5]
   \<and> prev_efficiency (add_trajectory_metrics [other_rb, rb_season_2, rb_season_1] ! Suc 0)
       = Some 4
   \<and> efficiency_delta (add_trajectory_metrics [other_rb, rb_season_2, rb_season_1] ! Suc 0)
       = Some (- 1)
   \<and> efficiency_delta (add_trajectory_metrics [other_rb, rb_season_2, rb_season_1] ! 0) = None
   \<and> prev_efficiency (add_trajectory_metrics [other_rb, rb_season_2, rb_season_1] ! Suc (Suc 0))
       = None
   \<and> efficiency_delta (add_trajectory_metrics [other_rb, rb_season_2, rb_season_1] ! Suc (Suc 0))
       = None"
proof -
  let ?df = "[other_rb, rb_season_2, rb_season_1]"
  let ?out = "add_trajectory_metrics ?df"
  have keys: "distinct (map (\<lambda>r. (player_id r, season r)) ?df)"
    by (simp add: other_rb_def rb_season_1_def rb_season_2_def blank_row_def)
  have len: "length ?out = Suc (Suc (Suc 0))"
    by (simp add: trajectory_defs)
  have ids: "map (\<lambda>r. (player_id r, season r)) ?out = [(''P'', 1), (''P'', 2), (''Q'', 2)]"
    by (simp add: trajectory_defs other_rb_def rb_season_1_def rb_season_2_def blank_row_def)
  have raws: "map raw_per_touch_yards ?out = [Some 4, Some 3, Some 5]"
    by (simp add: trajectory_defs other_rb_def rb_season_1_def rb_season_2_def blank_row_def
        num_defs)
  have r0: "player_id (?out ! 0) = ''P''" "season (?out ! 0) = 1"
    "raw_per_touch_yards (?out ! 0) = Some 4"
    using arg_cong [OF ids, of "\<lambda>l. l ! 0"] arg_cong [OF raws, of "\<lambda>l. l ! 0"] len
    by simp_all
  have r1: "player_id (?out ! Suc 0) = ''P''" "season (?out ! Suc 0) = 2"
    "raw_per_touch_yards (?out ! Suc 0) = Some 3"
    using arg_cong [OF ids, of "\<lambda>l. l ! Suc 0"] arg_cong [OF raws, of "\<lambda>l. l ! Suc 0"] len
    by simp_all
  have r2: "player_id (?out ! Suc (Suc 0)) = ''Q''" "season (?out ! Suc (Suc 0)) = 2"
    using arg_cong [OF ids, of "\<lambda>l. l ! Suc (Suc 0)"] len by simp_all
  have i0: "0 < length ?out" and i1: "Suc 0 < length ?out" and i2: "Suc (Suc 0) < length ?out"
    using len by simp_all
  have all3: "(\<forall>j<length ?out. P j) \<longleftrightarrow> P 0 \<and> P (Suc 0) \<and> P (Suc (Suc 0))" for P
    unfolding len by (auto simp: less_Suc_eq)
  from add_trajectory_metrics_shift_within_player [OF i1 keys]
  have "\<forall>j<length ?out.
           player_id (?out ! j) = player_id (?out ! Suc 0)
           \<and> season (?out ! j) < season (?out ! Suc 0)
           \<and> (\<forall>k<length ?out. player_id (?out ! k) = player_id (?out ! Suc 0)
                  \<longrightarrow> \<not> (season (?out ! j) < season (?out ! k)
                         \<and> season (?out ! k) < season (?out ! Suc 0)))
           \<longrightarrow> prev_efficiency (?out ! Suc 0) = raw_per_touch_yards (?out ! j)
               \<and> efficiency_delta (?out ! Suc 0) =
                 fsub (raw_per_touch_yards (?out ! Suc 0)) (raw_per_touch_yards (?out ! j))"
    by (elim conjE)
  then have second: "prev_efficiency (?out ! Suc 0) = Some 4"
    "efficiency_delta (?out ! Suc 0) = Some (- 1)"
    by (simp_all add: all3 r0 r1 r2 fsub_def)
  from add_trajectory_metrics_shift_within_player [OF i0 keys]
  have "(\<forall>j<length ?out. player_id (?out ! j) = player_id (?out ! 0)
            \<longrightarrow> season (?out ! 0) \<le> season (?out ! j))
         \<longrightarrow> prev_efficiency (?out ! 0) = None \<and> efficiency_delta (?out ! 0) = None"
    by (elim conjE)
  then have first: "efficiency_delta (?out ! 0) = None"
    by (simp add: all3 r0 r1 r2)
  from add_trajectory_metrics_shift_within_player [OF i2 keys]
  have "(\<forall>j<length ?out. player_id (?out ! j) = player_id (?out ! Suc (Suc 0))
            \<longrightarrow> season (?out ! Suc (Suc 0)) \<le> season (?out ! j))
         \<longrightarrow> prev_efficiency (?out ! Suc (Suc 0)) = None
           \<and> efficiency_delta (?out ! Suc (Suc 0)) = None"
    by (elim conjE)
  then have other: "prev_efficiency (?out ! Suc (Suc 0)) = None"
    "efficiency_delta (?out ! Suc (Suc 0)) = None"
    by (simp_all add: all3 r0 r1 r2)
  from keys ids raws second first other show ?thesis by (intro conjI)
qed

text \<open>
  The claim as stated fails on a table that lists a (player_id, season) twice, as the
  fused table can: the second of the two season-1 rows of the player is a row of his
  first season, and its \<open>efficiency_delta\<close> is the difference to the other season-1 row,
  not null.
\<close>

theorem first_season_delta_counterexample:
  "map (\<lambda>r. (player_id r, season r, raw_per_touch_yards r, efficiency_delta r))
     (add_trajectory_metrics [rb_season_1, rb_season_1_repeat]) =
   [(''P'', 1, Some 4, None), (''P'', 1, Some 2, Some (- 2))]"
  by (simp add: trajectory_defs rb_season_1_def rb_season_1_repeat_def blank_row_def num_defs)

section \<open>The breakout gate\<close>
lemma fmul_assoc: "fmul (fmul a b) c = fmul a (fmul b c)"
  by (simp add: fmul_def split: option.splits)

lemma calculate_composite_metrics_rows:
  assumes "calculate_composite_metrics df = Inr out"
  shows "out = map (score_row (filter (\<lambda>r. fge (games r) (Some 8)) (rows df)))
                   (filter (\<lambda>r. fge (games r) (Some 8)) (rows df))"
  using assms by (simp add: calculate_composite_metrics_def Let_def split: if_splits)

lemma base_score_row:
  "position (base (score_row tbl r)) = position r"
  "fantasy_points_per_game (base (score_row tbl r)) = fantasy_points_per_game r"
  by (simp_all add: score_row_def)

lemma position_group_scored:
  "map fantasy_points_per_game (position_group (map base (map (score_row tbl) tbl)) (base (score_row tbl r)))
   = map fantasy_points_per_game (position_group tbl r)"
  by (simp add: position_group_def base_score_row filter_map comp_def)

text \<open>
  C10.  In every returned row \<open>arrival_multiplier\<close> equals \<open>breakout_multiplier\<close>: both
  are 1.2 when \<open>fantasy_points_per_game\<close> is strictly below \<open>arrival_threshold\<close> and 0.7
  otherwise, where \<open>arrival_threshold\<close> is the 0.75 quantile of
  \<open>fantasy_points_per_game\<close> over the returned rows that have the row's own position.
  \<open>breakout_score\<close> is the five-term weighted sum times that multiplier twice, that is
  times 1.44 or 0.49.
\<close>

theorem breakout_multiplier_applied_twice:
  assumes "calculate_composite_metrics df = Inr out" and "s \<in> set out"
  shows "c_arrival_multiplier (derived s) = c_breakout_multiplier (derived s)
     \<and> c_arrival_threshold (derived s) =
         quantile 0.75 (map (\<lambda>q. fantasy_points_per_game (base q))
                          (filter (\<lambda>q. position (base q) = position (base s)) out))
     \<and> c_breakout_multiplier (derived s) =
         (if flt (fantasy_points_per_game (base s)) (c_arrival_threshold (derived s))
          then Some 1.2 else Some 0.7)
     \<and> c_breakout_score (derived s) =
         fmul (breakout_combination (c_draft_capital_score (derived s))
                 (c_norm_youth_bonus (derived s)) (c_norm_target_value (derived s))
                 (c_norm_efficiency (derived s)) (c_norm_target_share (derived s)))
              (fmul (c_breakout_multiplier (derived s)) (c_breakout_multiplier (derived s)))
     \<and> fmul (c_breakout_multiplier (derived s)) (c_breakout_multiplier (derived s)) =
         (if flt (fantasy_points_per_game (base s)) (c_arrival_threshold (derived s))
          then Some 1.44 else Some 0.49)"
proof -
  let ?kept = "filter (\<lambda>r. fge (games r) (Some 8)) (rows df)"
  from assms(1) have out: "out = map (score_row ?kept) ?kept"
    by (rule calculate_composite_metrics_rows)
  with assms(2) obtain r where r: "r \<in> set ?kept" and s: "s = score_row ?kept r" by auto
  have same: "arrival_multiplier ?kept r = breakout_multiplier ?kept r"
    by (simp add: arrival_multiplier_def breakout_multiplier_def)
  have "map (\<lambda>q. fantasy_points_per_game (base q))
          (filter (\<lambda>q. position (base q) = position (base s)) out) =
        map fantasy_points_per_game (position_group (map base out) (base s))"
    by (simp add: position_group_def filter_map comp_def)
  then have thr: "arrival_threshold ?kept r =
      quantile 0.75 (map (\<lambda>q. fantasy_points_per_game (base q))
                       (filter (\<lambda>q. position (base q) = position (base s)) out))"
    unfolding out s position_group_scored by (simp add: arrival_threshold_def)
  have m: "breakout_multiplier ?kept r =
      (if flt (fantasy_points_per_game r) (arrival_threshold ?kept r) then Some 1.2 else Some 0.7)"
    by (simp add: breakout_multiplier_def)
  have sq: "fmul (breakout_multiplier ?kept r) (breakout_multiplier ?kept r) =
      (if flt (fantasy_points_per_game r) (arrival_threshold ?kept r) then Some 1.44 else Some 0.49)"
    by (simp add: breakout_multiplier_def fmul_def)
  have sc: "breakout_score ?kept r =
      fmul (breakout_combination (draft_capital_score r) (norm_youth_bonus ?kept r)
              (norm_target_value ?kept r) (norm_efficiency ?kept r) (norm_target_share ?kept r))
           (fmul (breakout_multiplier ?kept r) (breakout_multiplier ?kept r))"
    by (simp add: breakout_score_def same fmul_assoc)
  have fields: "c_arrival_multiplier (derived s) = arrival_multiplier ?kept r"
    "c_breakout_multiplier (derived s) = breakout_multiplier ?kept r"
    "c_arrival_threshold (derived s) = arrival_threshold ?kept r"
    "c_breakout_score (derived s) = breakout_score ?kept r"
    "c_draft_capital_score (derived s) = draft_capital_score r"
    "c_norm_youth_bonus (derived s) = norm_youth_bonus ?kept r"
    "c_norm_target_value (derived s) = norm_target_value ?kept r"
    "c_norm_efficiency (derived s) = norm_efficiency ?kept r"
    "c_norm_target_share (derived s) = norm_target_share ?kept r"
    "fantasy_points_per_game (base s) = fantasy_points_per_game r"
    by (simp_all add: s score_row_def)
  show ?thesis
    unfolding fields using same thr m sq sc by simp
qed

text \<open>
  In the table of two receivers and two running backs the thresholds are 17.5 for the
  receivers and 3.5 for the backs; the 0.75 quantile of the four rows together would be
  12.5 and would give the second back the multiplier 1.2 instead of 0.7.
\<close>

theorem breakout_multiplier_applied_twice_witness:
  "calculate_composite_metrics two_position_frame =
     Inr (map (score_row [wr_a, rb_c, wr_b, rb_d]) [wr_a, rb_c, wr_b, rb_d])
   \<and> map (\<lambda>s. (position (base s), fantasy_points_per_game (base s),
               c_arrival_threshold (derived s), c_breakout_multiplier (derived s),
               c_arrival_multiplier (derived s), c_breakout_score (derived s)))
         (map (score_row [wr_a, rb_c, wr_b, rb_d]) [wr_a, rb_c, wr_b, rb_d]) =
       [(''WR'', Some 10, Some 17.5, Some 1.2, Some 1.2, Some 1.728),
        (''RB'', Some 2, Some 3.5, Some 1.2, Some 1.2, Some 1.512),
        (''WR'', Some 20, Some 17.5, Some 0.7, Some 0.7, Some 0.588),
        (''RB'', Some 4, Some 3.5, Some 0.7, Some 0.7, Some 0.5145)]
   \<and> quantile 0.75 (map fantasy_points_per_game [wr_a, rb_c, wr_b, rb_d]) = Some 12.5"
proof -
  let ?t = "[wr_a, rb_c, wr_b, rb_d]"
  let ?out = "map (score_row ?t) ?t"
  have run: "calculate_composite_metrics two_position_frame = Inr ?out"
    by (simp add: calculate_composite_metrics_def two_position_frame_def required_cols_def
        missing_cols_def Let_def wr_a_def wr_b_def rb_c_def rb_d_def blank_row_def num_defs)
  have pos: "map (\<lambda>s. position (base s)) ?out = [''WR'', ''RB'', ''WR'', ''RB'']"
    by (simp add: score_row_def wr_a_def wr_b_def rb_c_def rb_d_def blank_row_def)
  have fp: "map (\<lambda>s. fantasy_points_per_game (base s)) ?out = [Some 10, Some 2, Some 20, Some 4]"
    by (simp add: score_row_def wr_a_def wr_b_def rb_c_def rb_d_def blank_row_def)
  have comb: "map (\<lambda>s. breakout_combination (c_draft_capital_score (derived s))
        (c_norm_youth_bonus (derived s)) (c_norm_target_value (derived s))
        (c_norm_efficiency (derived s)) (c_norm_target_share (derived s))) ?out =
      [Some 1.2, Some 1.05, Some 1.2, Some 1.05]"
    by (simp add: score_row_def metric_defs wr_a_def wr_b_def rb_c_def rb_d_def blank_row_def
        stat_defs num_defs)
  have grp: "filter (\<lambda>q. position (base q) = ''WR'') ?out =
        [score_row ?t wr_a, score_row ?t wr_b]"
      "filter (\<lambda>q. position (base q) = ''RB'') ?out =
        [score_row ?t rb_c, score_row ?t rb_d]"
    by (simp_all add: score_row_def wr_a_def wr_b_def rb_c_def rb_d_def blank_row_def)
  have q: "quantile 0.75 [Some 10, Some 20] = Some 17.5"
    "quantile 0.75 [Some 2, Some 4] = Some 3.5"
    "quantile 0.75 (map fantasy_points_per_game ?t) = Some 12.5"
    by (simp_all add: quantile_def wr_a_def wr_b_def rb_c_def rb_d_def blank_row_def)
  have row: "(position (base s), fantasy_points_per_game (base s),
               c_arrival_threshold (derived s), c_breakout_multiplier (derived s),
               c_arrival_multiplier (derived s), c_breakout_score (derived s)) =
             (p, Some f, Some th, Some (if f < th then 1.2 else 0.7),
              Some (if f < th then 1.2 else 0.7), Some (c * (if f < th then 1.44 else 0.49)))"
    if "s \<in> set ?out" "position (base s) = p" "fantasy_points_per_game (base s) = Some f"
      "quantile 0.75 (map (\<lambda>q. fantasy_points_per_game (base q))
          (filter (\<lambda>q. position (base q) = p) ?out)) = Some th"
      "breakout_combination (c_draft_capital_score (derived s))
        (c_norm_youth_bonus (derived s)) (c_norm_target_value (derived s))
        (c_norm_efficiency (derived s)) (c_norm_target_share (derived s)) = Some c"
    for s p f th c
    using breakout_multiplier_applied_twice [OF run that(1)] that(2-5)
    by (simp add: flt_def fmul_def)
  have fpa: "fantasy_points_per_game (base (score_row ?t wr_a)) = Some 10"
    "fantasy_points_per_game (base (score_row ?t wr_b)) = Some 20"
    "fantasy_points_per_game (base (score_row ?t rb_c)) = Some 2"
    "fantasy_points_per_game (base (score_row ?t rb_d)) = Some 4"
    "position (base (score_row ?t wr_a)) = ''WR''" "position (base (score_row ?t wr_b)) = ''WR''"
    "position (base (score_row ?t rb_c)) = ''RB''" "position (base (score_row ?t rb_d)) = ''RB''"
    using pos fp by simp_all
  have cmb: "breakout_combination (c_draft_capital_score (derived (score_row ?t x)))
        (c_norm_youth_bonus (derived (score_row ?t x)))
        (c_norm_target_value (derived (score_row ?t x)))
        (c_norm_efficiency (derived (score_row ?t x)))
        (c_norm_target_share (derived (score_row ?t x))) =
      Some (if x = wr_a \<or> x = wr_b then 1.2 else 1.05)"
    if "x \<in> set ?t" "wr_a \<noteq> rb_c" "wr_a \<noteq> rb_d" "wr_b \<noteq> rb_c" "wr_b \<noteq> rb_d" for x
    using comb that by auto
  have ne: "wr_a \<noteq> rb_c" "wr_a \<noteq> rb_d" "wr_b \<noteq> rb_c" "wr_b \<noteq> rb_d"
    by (simp_all add: wr_a_def wr_b_def rb_c_def rb_d_def blank_row_def)
  have a: "(position (base (score_row ?t wr_a)), fantasy_points_per_game (base (score_row ?t wr_a)),
       c_arrival_threshold (derived (score_row ?t wr_a)),
       c_breakout_multiplier (derived (score_row ?t wr_a)),
       c_arrival_multiplier (derived (score_row ?t wr_a)),
       c_breakout_score (derived (score_row ?t wr_a))) =
      (''WR'', Some 10, Some 17.5, Some 1.2, Some 1.2, Some 1.728)"
    using row [of "score_row ?t wr_a" "''WR''" 10 "17.5" "1.2"] cmb [of wr_a] ne q
    by (simp add: fpa grp)
  have b: "(position (base (score_row ?t rb_c)), fantasy_points_per_game (base (score_row ?t rb_c)),
       c_arrival_threshold (derived (score_row ?t rb_c)),
       c_breakout_multiplier (derived (score_row ?t rb_c)),
       c_arrival_multiplier (derived (score_row ?t rb_c)),
       c_breakout_score (derived (score_row ?t rb_c))) =
      (''RB'', Some 2, Some 3.5, Some 1.2, Some 1.2, Some 1.512)"
    using row [of "score_row ?t rb_c" "''RB''" 2 "3.5" "1.05"] cmb [of rb_c] ne q
    by (simp add: fpa grp)
  have c: "(position (base (score_row ?t wr_b)), fantasy_points_per_game (base (score_row ?t wr_b)),
       c_arrival_threshold (derived (score_row ?t wr_b)),
       c_breakout_multiplier (derived (score_row ?t wr_b)),
       c_arrival_multiplier (derived (score_row ?t wr_b)),
       c_breakout_score (derived (score_row ?t wr_b))) =
      (''WR'', Some 20, Some 17.5, Some 0.7, Some 0.7, Some 0.588)"
    using row [of "score_row ?t wr_b" "''WR''" 20 "17.5" "1.2"] cmb [of wr_b] ne q
    by (simp add: fpa grp)
  have d: "(position (base (score_row ?t rb_d)), fantasy_points_per_game (base (score_row ?t rb_d)),
       c_arrival_threshold (derived (score_row ?t rb_d)),
       c_breakout_multiplier (derived (score_row ?t rb_d)),
       c_arrival_multiplier (derived (score_row ?t rb_d)),
       c_breakout_score (derived (score_row ?t rb_d))) =
      (''RB'', Some 4, Some 3.5, Some 0.7, Some 0.7, Some 0.5145)"
    using row [of "score_row ?t rb_d" "''RB''" 4 "3.5" "1.05"] cmb [of rb_d] ne q
    by (simp add: fpa grp)
  from run a b c d q(3) show ?thesis by simp
qed

section \<open>Multi-team rows\<close>

lemma starts_with_iff: "starts_with pat s \<longleftrightarrow> (\<exists>suf. s = pat @ suf)"
  by (induction pat s rule: starts_with.induct) auto

lemma str_contains_iff: "str_contains pat s \<longleftrightarrow> (\<exists>pre suf. s = pre @ pat @ suf)"
proof (induction s)
  case Nil
  then show ?case by (auto simp: starts_with_iff)
next
  case (Cons c cs)
  show ?case
  proof
    assume "str_contains pat (c # cs)"
    then consider "starts_with pat (c # cs)" | "str_contains pat cs" by auto
    then show "\<exists>pre suf. c # cs = pre @ pat @ suf"
    proof cases
      case 1
      then obtain suf where "c # cs = pat @ suf" by (auto simp: starts_with_iff)
      then have "c # cs = [] @ pat @ suf" by simp
      then show ?thesis by blast
    next
      case 2
      with Cons.IH obtain pre suf where "cs = pre @ pat @ suf" by auto
      then have "c # cs = (c # pre) @ pat @ suf" by simp
      then show ?thesis by blast
    qed
  next
    assume "\<exists>pre suf. c # cs = pre @ pat @ suf"
    then obtain pre suf where e: "c # cs = pre @ pat @ suf" by auto
    show "str_contains pat (c # cs)"
    proof (cases pre)
      case Nil
      with e have "starts_with pat (c # cs)" by (auto simp: starts_with_iff)
      then show ?thesis by simp
    next
      case (Cons p pre')
      with e have "cs = pre' @ pat @ suf" by simp
      with Cons.IH have "str_contains pat cs" by blast
      then show ?thesis by simp
    qed
  qed
qed

lemma has_total_iff:
  "has_total t r \<longleftrightarrow>
     (\<exists>q \<in> set t. pfr_id q = pfr_id r \<and> pfr_season q = pfr_season r \<and> is_total_row q)"
  by (auto simp: has_total_def list_ex_iff)

text \<open>
  C6.  Within the table of one category, the rows of a (pfr_id, season) group that
  survive are its combined rows (team containing \<open>TM\<close>) when the group has one, and all
  its rows, in their order, when it has none.  Each category's table is treated on its
  own, so the outcome for a group depends on the rows of that table only.
\<close>

theorem multi_team_rows_collapse:
  "filter (\<lambda>r. pfr_id r = p \<and> pfr_season r = y) (handle_midseason_trades t) =
     (if \<exists>q \<in> set t. pfr_id q = p \<and> pfr_season q = y \<and> is_total_row q
      then filter (\<lambda>r. pfr_id r = p \<and> pfr_season r = y \<and> is_total_row r) t
      else filter (\<lambda>r. pfr_id r = p \<and> pfr_season r = y) t)
   \<and> (is_total_row r \<longleftrightarrow> (\<exists>pre suf. team r = pre @ ''TM'' @ suf))
   \<and> (i < length tables \<longrightarrow>
        normalize_categories tables ! i = handle_midseason_trades (tables ! i))"
proof -
  have a: "filter (\<lambda>r. pfr_id r = p \<and> pfr_season r = y) (handle_midseason_trades t) =
     (if \<exists>q \<in> set t. pfr_id q = p \<and> pfr_season q = y \<and> is_total_row q
      then filter (\<lambda>r. pfr_id r = p \<and> pfr_season r = y \<and> is_total_row r) t
      else filter (\<lambda>r. pfr_id r = p \<and> pfr_season r = y) t)"
    unfolding handle_midseason_trades_def filter_filter has_total_iff
    by (auto intro!: filter_cong)
  have b: "is_total_row r \<longleftrightarrow> (\<exists>pre suf. team r = pre @ ''TM'' @ suf)"
    unfolding is_total_row_def by (rule str_contains_iff)
  have c: "i < length tables \<longrightarrow>
        normalize_categories tables ! i = handle_midseason_trades (tables ! i)"
    by (simp add: normalize_categories_def)
  from a b c show ?thesis by blast
qed

theorem multi_team_rows_collapse_witness:
  "handle_midseason_trades [traded_combined, traded_team, settled] = [traded_combined, settled]
   \<and> filter (\<lambda>r. pfr_id r = ''BarkSa00'' \<and> pfr_season r = 2024)
         (handle_midseason_trades [traded_combined, traded_team, settled]) = [traded_combined]
   \<and> filter (\<lambda>r. pfr_id r = ''HenrDe00'' \<and> pfr_season r = 2024)
         (handle_midseason_trades [traded_combined, traded_team, settled]) = [settled]
   \<and> is_total_row traded_combined \<and> \<not> is_total_row traded_team
   \<and> normalize_categories [[traded_combined, traded_team], [traded_team]] ! 1 = [traded_team]"
proof -
  let ?t = "[traded_combined, traded_team, settled]"
  have tot: "is_total_row traded_combined" "\<not> is_total_row traded_team"
    "\<not> is_total_row settled"
    by (simp_all add: is_total_row_def traded_combined_def traded_team_def settled_def)
  have ids: "pfr_id traded_combined = ''BarkSa00''" "pfr_id traded_team = ''BarkSa00''"
    "pfr_id settled = ''HenrDe00''" "pfr_season traded_combined = 2024"
    "pfr_season traded_team = 2024" "pfr_season settled = 2024"
    by (simp_all add: traded_combined_def traded_team_def settled_def)
  have all: "handle_midseason_trades ?t = [traded_combined, settled]"
    by (simp add: handle_midseason_trades_def has_total_def tot ids)
  from multi_team_rows_collapse [of "''BarkSa00''" 2024 ?t traded_combined 1
      "[[traded_combined, traded_team], [traded_team]]"]
  have a: "filter (\<lambda>r. pfr_id r = ''BarkSa00'' \<and> pfr_season r = 2024)
         (handle_midseason_trades ?t) = [traded_combined]"
    and c: "normalize_categories [[traded_combined, traded_team], [traded_team]] ! 1 =
         handle_midseason_trades [traded_team]"
    by (simp_all add: tot ids)
  from multi_team_rows_collapse [of "''HenrDe00''" 2024 ?t settled 0 "[]"]
  have b: "filter (\<lambda>r. pfr_id r = ''HenrDe00'' \<and> pfr_season r = 2024)
         (handle_midseason_trades ?t) = [settled]"
    by (simp add: tot ids)
  have d: "handle_midseason_trades [traded_team] = [traded_team]"
    by (simp add: handle_midseason_trades_def has_total_def tot ids)
  from all a b c d tot show ?thesis by simp
qed

section \<open>Key uniqueness after fusion\<close>
lemma merge_left_map:
  assumes "\<And>l. l \<in> set left \<Longrightarrow> length (filter (on l) right) \<le> 1"
      and "\<And>l m. f (put l m) = f l"
  shows "map f (merge_left on put left right) = map f left"
  using assms(1)
proof (induction left)
  case Nil
  then show ?case by (simp add: merge_left_def)
next
  case (Cons l left)
  then have le: "length (filter (on l) right) \<le> 1" by simp
  have "map f (case filter (on l) right of [] \<Rightarrow> [l] | m # ms \<Rightarrow> map (put l) (m # ms)) = [f l]"
  proof (cases "filter (on l) right")
    case Nil
    then show ?thesis by simp
  next
    case (Cons m ms)
    with le have "ms = []" by simp
    with Cons show ?thesis by (simp add: assms(2))
  qed
  moreover from Cons have "map f (merge_left on put left right) = map f left" by simp
  ultimately show ?case by (simp add: merge_left_def)
qed

lemma at_most_one_with_key:
  assumes "distinct (filter P (map key rs))" and "P k"
  shows "length (filter (\<lambda>r. key r = k) rs) \<le> 1"
  using assms(1)
proof (induction rs)
  case Nil
  then show ?case by simp
next
  case (Cons r rs)
  show ?case
  proof (cases "key r = k")
    case True
    with Cons.prems assms(2) have "k \<notin> set (map key rs)" by auto
    then have "filter (\<lambda>r. key r = k) rs = []" by (auto simp: filter_empty_conv)
    with True show ?thesis by simp
  next
    case False
    with Cons show ?thesis by (auto split: if_splits)
  qed
qed

lemma drop_duplicates_from_keys:
  "distinct (map key (drop_duplicates_from key seen rs)) \<and>
   set (map key (drop_duplicates_from key seen rs)) \<inter> set seen = {}"
proof (induction rs arbitrary: seen)
  case Nil
  then show ?case by simp
next
  case (Cons r rs)
  from Cons [of seen] Cons [of "key r # seen"] show ?case by auto
qed

lemma distinct_drop_duplicates: "distinct (map key (drop_duplicates key rs))"
  by (simp add: drop_duplicates_def drop_duplicates_from_keys)

lemma distinct_drop_duplicates_last: "distinct (map key (drop_duplicates_last key rs))"
  by (simp add: drop_duplicates_last_def distinct_drop_duplicates rev_map [symmetric])

lemma keys_get_ftn_stats:
  "map (\<lambda>c. (ftn_player_id c, ftn_season c)) (get_ftn_stats plays) =
   sort (remdups (List.map_filter ftn_key plays))"
  by (simp add: get_ftn_stats_def Let_def comp_def)

lemma distinct_get_ftn_stats:
  "distinct (map (\<lambda>c. (ftn_player_id c, ftn_season c)) (get_ftn_stats plays))"
  by (simp add: keys_get_ftn_stats)

lemma stats_part_set_season_age [simp]: "stats_part (set_season_age f) = stats_part f"
  by (simp add: set_season_age_def)

text \<open>
  C5, as amended.  \<open>construct_intelligent_dataset\<close> has no uniqueness check and raises
  nothing on a repeated key.  It fails, with \<open>KeyError\<close> for \<open>player_id\<close>, exactly when the
  charting table or the contract list is empty, and otherwise returns the joined table.
  That table has one row for each (player_id, season) of the base stats with an allowed
  position, in key order, provided that the base stats have no repeated (player_id,
  season), the team table no repeated (team, season), the draft table no repeated player
  and the roster table no repeated (player, season).  The charting, play-count and
  contract tables cannot add rows: their loaders leave one row for each key.
\<close>

theorem fusion_keeps_unique_keys:
  "(pfr_combined src = [] \<or> contract_years src = [] \<longrightarrow>
      construct_intelligent_dataset src positions = Inl (KeyError ''player_id''))
   \<and> (pfr_combined src \<noteq> [] \<and> contract_years src \<noteq> [] \<longrightarrow>
      (\<exists>out. construct_intelligent_dataset src positions = Inr out))
   \<and> (pfr_combined src \<noteq> [] \<and> contract_years src \<noteq> []
      \<and> distinct (map (\<lambda>s. (st_player_id s, st_season s)) (player_stats src))
      \<and> distinct (map (\<lambda>t. (tm_recent_team t, tm_season t)) (team_stats src))
      \<and> distinct (filter (\<lambda>k. k \<noteq> None) (map dr_player_id (draft_picks src)))
      \<and> distinct (filter (\<lambda>k. fst k \<noteq> None)
            (map (\<lambda>ro. (ro_player_id ro, ro_season ro)) (rosters src)))
      \<longrightarrow> (\<exists>out. construct_intelligent_dataset src positions = Inr out
            \<and> map fused_key out =
                sort (map (\<lambda>s. (st_player_id s, st_season s))
                        (filter (\<lambda>s. st_position s \<in> set positions) (player_stats src)))
            \<and> distinct (map fused_key out)))"
proof -
  have err: "construct_intelligent_dataset src positions = Inl (KeyError ''player_id'')"
    if "pfr_combined src = [] \<or> contract_years src = []"
    using that by (auto simp: construct_intelligent_dataset_def Let_def)
  have ok: "\<exists>out. construct_intelligent_dataset src positions = Inr out"
    if "pfr_combined src \<noteq> [] \<and> contract_years src \<noteq> []"
    using that by (simp add: construct_intelligent_dataset_def Let_def)
  have uniq: "\<exists>out. construct_intelligent_dataset src positions = Inr out
            \<and> map fused_key out =
                sort (map (\<lambda>s. (st_player_id s, st_season s))
                        (filter (\<lambda>s. st_position s \<in> set positions) (player_stats src)))
            \<and> distinct (map fused_key out)"
    if ne: "pfr_combined src \<noteq> []" "contract_years src \<noteq> []"
      and stats: "distinct (map (\<lambda>s. (st_player_id s, st_season s)) (player_stats src))"
      and team: "distinct (map (\<lambda>t. (tm_recent_team t, tm_season t)) (team_stats src))"
      and draft: "distinct (filter (\<lambda>k. k \<noteq> None) (map dr_player_id (draft_picks src)))"
      and roster: "distinct (filter (\<lambda>k. fst k \<noteq> None)
                     (map (\<lambda>ro. (ro_player_id ro, ro_season ro)) (rosters src)))"
  proof -
    let ?df0 = "map unjoined (filter (\<lambda>s. st_position s \<in> set positions) (player_stats src))"
    let ?on1 = "\<lambda>l t. tm_recent_team t = st_recent_team (stats_part l)
                             \<and> tm_season t = st_season (stats_part l)"
    let ?df1 = "merge_left ?on1 (\<lambda>l t. l\<lparr>team_part := Some t\<rparr>) ?df0 (team_stats src)"
    let ?pfr = "drop_duplicates (\<lambda>p. (adv_player_id p, adv_season p)) (pfr_combined src)"
    let ?on2 = "\<lambda>l p. adv_player_id p = Some (st_player_id (stats_part l))
                             \<and> adv_season p = st_season (stats_part l)"
    let ?df2 = "merge_left ?on2 (\<lambda>l p. l\<lparr>pfr_part := Some p\<rparr>) ?df1 ?pfr"
    let ?on3 = "\<lambda>l c. ftn_player_id c = st_player_id (stats_part l)
                             \<and> ftn_season c = st_season (stats_part l)"
    let ?df3 = "merge_left ?on3 (\<lambda>l c. l\<lparr>ftn_part := Some c\<rparr>) ?df2 (get_ftn_stats (ftn_joined src))"
    let ?on4 = "\<lambda>l d. dr_player_id d = Some (st_player_id (stats_part l))"
    let ?df4 = "merge_left ?on4 (\<lambda>l d. l\<lparr>draft_part := Some d\<rparr>) ?df3 (draft_picks src)"
    let ?on5 = "\<lambda>l ro. ro_player_id ro = Some (st_player_id (stats_part l))
                              \<and> ro_season ro = st_season (stats_part l)"
    let ?df5 = "merge_left ?on5 (\<lambda>l ro. l\<lparr>roster_part := Some ro\<rparr>) ?df4 (rosters src)"
    let ?ct = "drop_duplicates_last (\<lambda>c. (ct_player_id c, ct_season c)) (contract_years src)"
    let ?on6 = "\<lambda>l c. ct_player_id c = st_player_id (stats_part l)
                             \<and> ct_season c = st_season (stats_part l)"
    let ?df6 = "merge_left ?on6 (\<lambda>l c. l\<lparr>contract_part := Some c\<rparr>) ?df5 ?ct"
    have out: "construct_intelligent_dataset src positions =
        Inr (sort_key fused_key (map set_season_age ?df6))"
      using ne by (simp add: construct_intelligent_dataset_def Let_def)
    have m1: "length (filter (?on1 l) (team_stats src)) \<le> 1" for l
      using at_most_one_with_key [where key = "\<lambda>t. (tm_recent_team t, tm_season t)"
          and P = "\<lambda>k. True" and rs = "team_stats src"
          and k = "(st_recent_team (stats_part l), st_season (stats_part l))"] team
      by simp
    have m2: "length (filter (?on2 l) ?pfr) \<le> 1" for l
      using at_most_one_with_key [where key = "\<lambda>p. (adv_player_id p, adv_season p)"
          and P = "\<lambda>k. True" and rs = ?pfr
          and k = "(Some (st_player_id (stats_part l)), st_season (stats_part l))"]
        distinct_drop_duplicates [of "\<lambda>p. (adv_player_id p, adv_season p)" "pfr_combined src"]
      by simp
    have m3: "length (filter (?on3 l) (get_ftn_stats (ftn_joined src))) \<le> 1" for l
      using at_most_one_with_key [where key = "\<lambda>c. (ftn_player_id c, ftn_season c)"
          and P = "\<lambda>k. True" and rs = "get_ftn_stats (ftn_joined src)"
          and k = "(st_player_id (stats_part l), st_season (stats_part l))"]
        distinct_get_ftn_stats [of "ftn_joined src"]
      by simp
    have m4: "length (filter (?on4 l) (draft_picks src)) \<le> 1" for l
      using at_most_one_with_key [where key = dr_player_id
          and P = "\<lambda>k. k \<noteq> None" and rs = "draft_picks src"
          and k = "Some (st_player_id (stats_part l))"] draft
      by simp
    have m5: "length (filter (?on5 l) (rosters src)) \<le> 1" for l
      using at_most_one_with_key [where key = "\<lambda>ro. (ro_player_id ro, ro_season ro)"
          and P = "\<lambda>k. fst k \<noteq> None" and rs = "rosters src"
          and k = "(Some (st_player_id (stats_part l)), st_season (stats_part l))"] roster
      by simp
    have m6: "length (filter (?on6 l) ?ct) \<le> 1" for l
      using at_most_one_with_key [where key = "\<lambda>c. (ct_player_id c, ct_season c)"
          and P = "\<lambda>k. True" and rs = ?ct
          and k = "(st_player_id (stats_part l), st_season (stats_part l))"]
        distinct_drop_duplicates_last [of "\<lambda>c. (ct_player_id c, ct_season c)" "contract_years src"]
      by simp
    have "map stats_part ?df6 = map stats_part ?df5"
      by (rule merge_left_map) (rule m6, simp)
    also have "\<dots> = map stats_part ?df4"
      by (rule merge_left_map) (rule m5, simp)
    also have "\<dots> = map stats_part ?df3"
      by (rule merge_left_map) (rule m4, simp)
    also have "\<dots> = map stats_part ?df2"
      by (rule merge_left_map) (rule m3, simp)
    also have "\<dots> = map stats_part ?df1"
      by (rule merge_left_map) (rule m2, simp)
    also have "\<dots> = map stats_part ?df0"
      by (rule merge_left_map) (rule m1, simp)
    also have "\<dots> = filter (\<lambda>s. st_position s \<in> set positions) (player_stats src)"
      by (simp add: unjoined_def comp_def)
    finally have parts: "map stats_part ?df6 =
        filter (\<lambda>s. st_position s \<in> set positions) (player_stats src)" .
    have "map fused_key (map set_season_age ?df6) =
        map (\<lambda>s. (st_player_id s, st_season s)) (map stats_part ?df6)"
      by (simp add: fused_key_def comp_def)
    with parts have keys: "map fused_key (map set_season_age ?df6) =
        map (\<lambda>s. (st_player_id s, st_season s))
          (filter (\<lambda>s. st_position s \<in> set positions) (player_stats src))" by simp
    have "map fused_key (sort_key fused_key (map set_season_age ?df6)) =
        sort (map fused_key (map set_season_age ?df6))"
      by (rule map_sort_key)
    with keys have eq: "map fused_key (sort_key fused_key (map set_season_age ?df6)) =
        sort (map (\<lambda>s. (st_player_id s, st_season s))
                (filter (\<lambda>s. st_position s \<in> set positions) (player_stats src)))" by simp
    from stats have "distinct (map (\<lambda>s. (st_player_id s, st_season s))
                (filter (\<lambda>s. st_position s \<in> set positions) (player_stats src)))"
      by (simp add: distinct_map_filter)
    with eq have "distinct (map fused_key (sort_key fused_key (map set_season_age ?df6)))"
      by simp
    with out eq show ?thesis by blast
  qed
  from err ok uniq show ?thesis by blast
qed

theorem fusion_keeps_unique_keys_witness:
  "map_sum id (map fused_key) (construct_intelligent_dataset season_sources all_positions) =
     Inr [(''A'', 2023), (''A'', 2024), (''B'', 2024)]
   \<and> map_sum id (map fused_season_age)
       (construct_intelligent_dataset season_sources all_positions) =
     Inr [Some 22, Some 23, Some 29]
   \<and> map_sum id (map (\<lambda>f. map_option adv_data (pfr_part f)))
       (construct_intelligent_dataset season_sources all_positions) =
     Inr [None, Some ''first'', Some ''first'']
   \<and> map_sum id (map (\<lambda>f. map_option ct_data (contract_part f)))
       (construct_intelligent_dataset season_sources all_positions) =
     Inr [None, Some ''extension'', Some ''veteran deal'']
   \<and> map_sum id (map (\<lambda>f. map_option sum_catchable_ball (ftn_part f)))
       (construct_intelligent_dataset season_sources all_positions) =
     Inr [None, Some 2, None]
   \<and> construct_intelligent_dataset (season_sources\<lparr>pfr_combined := []\<rparr>) all_positions =
     Inl (KeyError ''player_id'')"
proof -
  let ?run = "construct_intelligent_dataset season_sources all_positions"
  have h: "pfr_combined season_sources \<noteq> [] \<and> contract_years season_sources \<noteq> []
      \<and> distinct (map (\<lambda>s. (st_player_id s, st_season s)) (player_stats season_sources))
      \<and> distinct (map (\<lambda>t. (tm_recent_team t, tm_season t)) (team_stats season_sources))
      \<and> distinct (filter (\<lambda>k. k \<noteq> None) (map dr_player_id (draft_picks season_sources)))
      \<and> distinct (filter (\<lambda>k. fst k \<noteq> None)
            (map (\<lambda>ro. (ro_player_id ro, ro_season ro)) (rosters season_sources)))"
    by (simp add: season_sources_def)
  from fusion_keeps_unique_keys [of season_sources all_positions]
  have "pfr_combined season_sources \<noteq> [] \<and> contract_years season_sources \<noteq> []
      \<and> distinct (map (\<lambda>s. (st_player_id s, st_season s)) (player_stats season_sources))
      \<and> distinct (map (\<lambda>t. (tm_recent_team t, tm_season t)) (team_stats season_sources))
      \<and> distinct (filter (\<lambda>k. k \<noteq> None) (map dr_player_id (draft_picks season_sources)))
      \<and> distinct (filter (\<lambda>k. fst k \<noteq> None)
            (map (\<lambda>ro. (ro_player_id ro, ro_season ro)) (rosters season_sources)))
      \<longrightarrow> (\<exists>out. ?run = Inr out
            \<and> map fused_key out =
                sort (map (\<lambda>s. (st_player_id s, st_season s))
                        (filter (\<lambda>s. st_position s \<in> set all_positions)
                           (player_stats season_sources)))
            \<and> distinct (map fused_key out))"
    by (elim conjE)
  with h obtain out where out: "?run = Inr out"
    and keys: "map fused_key out =
                sort (map (\<lambda>s. (st_player_id s, st_season s))
                        (filter (\<lambda>s. st_position s \<in> set all_positions)
                           (player_stats season_sources)))"
    by blast
  have "sort (map (\<lambda>s. (st_player_id s, st_season s))
                        (filter (\<lambda>s. st_position s \<in> set all_positions)
                           (player_stats season_sources))) =
        [(''A'', 2023), (''A'', 2024), (''B'', 2024)]"
    by (simp add: season_sources_def all_positions_def)
  with out keys have a: "map_sum id (map fused_key) ?run =
      Inr [(''A'', 2023), (''A'', 2024), (''B'', 2024)]"
    by simp
  have ev: "?run = Inr (sort_key fused_key (map set_season_age
      (merge_left
         (\<lambda>l c. ct_player_id c = st_player_id (stats_part l) \<and> ct_season c = st_season (stats_part l))
         (\<lambda>l c. l\<lparr>contract_part := Some c\<rparr>)
         (merge_left
            (\<lambda>l ro. ro_player_id ro = Some (st_player_id (stats_part l))
                      \<and> ro_season ro = st_season (stats_part l))
            (\<lambda>l ro. l\<lparr>roster_part := Some ro\<rparr>)
            (merge_left
               (\<lambda>l d. dr_player_id d = Some (st_player_id (stats_part l)))
               (\<lambda>l d. l\<lparr>draft_part := Some d\<rparr>)
               (merge_left
                  (\<lambda>l c. ftn_player_id c = st_player_id (stats_part l)
                          \<and> ftn_season c = st_season (stats_part l))
                  (\<lambda>l c. l\<lparr>ftn_part := Some c\<rparr>)
                  (merge_left
                     (\<lambda>l p. adv_player_id p = Some (st_player_id (stats_part l))
                             \<and> adv_season p = st_season (stats_part l))
                     (\<lambda>l p. l\<lparr>pfr_part := Some p\<rparr>)
                     (merge_left
                        (\<lambda>l t. tm_recent_team t = st_recent_team (stats_part l)
                                \<and> tm_season t = st_season (stats_part l))
                        (\<lambda>l t. l\<lparr>team_part := Some t\<rparr>)
                        (map unjoined (filter (\<lambda>s. st_position s \<in> set all_positions)
                                         (player_stats season_sources)))
                        (team_stats season_sources))
                     (drop_duplicates (\<lambda>p. (adv_player_id p, adv_season p))
                        (pfr_combined season_sources)))
                  (get_ftn_stats (ftn_joined season_sources)))
               (draft_picks season_sources))
            (rosters season_sources))
         (drop_duplicates_last (\<lambda>c. (ct_player_id c, ct_season c))
            (contract_years season_sources)))))"
    using h by (simp add: construct_intelligent_dataset_def Let_def)
  have b: "map_sum id (map fused_season_age) ?run = Inr [Some 22, Some 23, Some 29]"
    unfolding ev
    by (simp add: season_sources_def all_positions_def merge_left_def unjoined_def
        get_ftn_stats_def drop_duplicates_def drop_duplicates_last_def set_season_age_def
        fused_key_def ftn_key_def List.map_filter_def)
  have c: "map_sum id (map (\<lambda>f. map_option adv_data (pfr_part f))) ?run =
      Inr [None, Some ''first'', Some ''first'']"
    unfolding ev
    by (simp add: season_sources_def all_positions_def merge_left_def unjoined_def
        get_ftn_stats_def drop_duplicates_def drop_duplicates_last_def set_season_age_def
        fused_key_def ftn_key_def List.map_filter_def)
  have d: "map_sum id (map (\<lambda>f. map_option ct_data (contract_part f))) ?run =
      Inr [None, Some ''extension'', Some ''veteran deal'']"
    unfolding ev
    by (simp add: season_sources_def all_positions_def merge_left_def unjoined_def
        get_ftn_stats_def drop_duplicates_def drop_duplicates_last_def set_season_age_def
        fused_key_def ftn_key_def List.map_filter_def)
  have e: "map_sum id (map (\<lambda>f. map_option sum_catchable_ball (ftn_part f))) ?run =
      Inr [None, Some 2, None]"
    unfolding ev
    by (simp add: season_sources_def all_positions_def merge_left_def unjoined_def
        get_ftn_stats_def drop_duplicates_def drop_duplicates_last_def set_season_age_def
        fused_key_def ftn_key_def List.map_filter_def)
  from fusion_keeps_unique_keys [of "season_sources\<lparr>pfr_combined := []\<rparr>" all_positions]
  have f: "construct_intelligent_dataset (season_sources\<lparr>pfr_combined := []\<rparr>) all_positions =
     Inl (KeyError ''player_id'')"
    by simp
  from a b c d e f show ?thesis by (intro conjI)
qed

text \<open>
  The claim as stated fails: when the roster lists the receiver twice for 2024, the
  constructor raises nothing and returns two rows with the key (A, 2024).
\<close>

theorem fusion_duplicate_rows_counterexample:
  "map_sum id (map (\<lambda>f. (fused_key f, fused_season_age f)))
     (construct_intelligent_dataset repeated_roster_sources all_positions) =
   Inr [((''A'', 2023), Some 22), ((''A'', 2024), Some 23), ((''A'', 2024), Some 25),
        ((''B'', 2024), Some 29)]"
  by (simp add: construct_intelligent_dataset_def Let_def repeated_roster_sources_def
      season_sources_def all_positions_def merge_left_def unjoined_def get_ftn_stats_def
      drop_duplicates_def drop_duplicates_last_def set_season_age_def fused_key_def
      ftn_key_def List.map_filter_def)

section \<open>Breakout candidates\<close>

lemma mset_sort_values_descending: "mset (sort_values_descending col t) = mset t"
  by (simp add: sort_values_descending_def)

lemma set_breakout_filter:
  "set (breakout_filter (filter (min_games_mask min_games) df)) =
     {s \<in> set df. breakout_conditions min_games s}"
  by (auto simp: breakout_filter_def min_games_mask_def volume_mask_def breakout_conditions_def)

lemma set_sorted_table:
  assumes "\<And>col t. mset (srt col t) = mset t"
  shows "set (srt col t) = set t" and "length (srt col t) = length t"
proof -
  from assms have m: "mset (srt col t) = mset t" .
  from m show "set (srt col t) = set t" by (rule mset_eq_setD)
  from m show "length (srt col t) = length t" by (rule mset_eq_length)
qed

text \<open>
  C7.  Whatever order the sorting routine gives, the rows that
  \<open>get_dynasty_candidates\<close> returns for \<open>breakout\<close> are rows of the table that meet all
  four conditions: games at least the floor, position other than QB, the volume floor
  (25 targets for WR and TE, 40 carries for RB) and \<open>season_age\<close> at most 25; when
  \<open>top_n\<close> does not cut the list they are exactly those rows.  A QB is never returned.
  A 24-year-old WR with enough games meets the conditions with 30 targets and fails
  them with 20.
\<close>

theorem breakout_candidates_filter:
  assumes perm: "\<And>col t. mset (sort_values col t) = mset t"
  shows "set (get_dynasty_candidates sort_values df ''breakout'' min_games top_n)
           \<subseteq> {s \<in> set df. breakout_conditions min_games s}
     \<and> (length df \<le> top_n \<longrightarrow>
          set (get_dynasty_candidates sort_values df ''breakout'' min_games top_n)
            = {s \<in> set df. breakout_conditions min_games s})
     \<and> (position (base q) = ''QB'' \<longrightarrow>
          q \<notin> set (get_dynasty_candidates sort_values df ''breakout'' min_games top_n))
     \<and> (position (base w) = ''WR'' \<and> season_age (base w) = Some 24
          \<and> fge (games (base w)) (Some min_games) \<longrightarrow>
          (targets (base w) = Some 30 \<longrightarrow> breakout_conditions min_games w)
          \<and> (targets (base w) = Some 20 \<longrightarrow> \<not> breakout_conditions min_games w
                \<and> w \<notin> set (get_dynasty_candidates sort_values df ''breakout'' min_games top_n)))"
proof -
  let ?f = "breakout_filter (filter (min_games_mask min_games) df)"
  let ?col = "\<lambda>s. c_breakout_score (derived s)"
  have out: "get_dynasty_candidates sort_values df ''breakout'' min_games top_n =
      take top_n (sort_values ?col ?f)"
    by (simp add: get_dynasty_candidates_def Let_def)
  have "set (take top_n (sort_values ?col ?f)) \<subseteq> set (sort_values ?col ?f)"
    by (rule set_take_subset)
  also have "\<dots> = set ?f" using perm by (rule set_sorted_table(1))
  finally have sub: "set (get_dynasty_candidates sort_values df ''breakout'' min_games top_n)
           \<subseteq> {s \<in> set df. breakout_conditions min_games s}"
    unfolding out set_breakout_filter .
  have full: "set (get_dynasty_candidates sort_values df ''breakout'' min_games top_n)
            = {s \<in> set df. breakout_conditions min_games s}" if "length df \<le> top_n"
  proof -
    have "length (sort_values ?col ?f) = length ?f" using perm by (rule set_sorted_table(2))
    also have "\<dots> \<le> length df" by (simp add: breakout_filter_def le_trans [OF length_filter_le])
    finally have "length (sort_values ?col ?f) \<le> top_n" using that by simp
    then have "take top_n (sort_values ?col ?f) = sort_values ?col ?f" by simp
    then show ?thesis
      unfolding out using set_sorted_table(1) [of sort_values ?col ?f, OF perm]
      by (simp add: set_breakout_filter)
  qed
  have qb: "q \<notin> set (get_dynasty_candidates sort_values df ''breakout'' min_games top_n)"
    if "position (base q) = ''QB''"
    using sub that by (auto simp: breakout_conditions_def)
  have wr30: "breakout_conditions min_games w"
    if "position (base w) = ''WR''" "season_age (base w) = Some 24"
       "fge (games (base w)) (Some min_games)" "targets (base w) = Some 30"
    using that by (simp add: breakout_conditions_def fge_def fle_def)
  have wr20: "\<not> breakout_conditions min_games w"
    if "position (base w) = ''WR''" "targets (base w) = Some 20"
    using that by (simp add: breakout_conditions_def fge_def fle_def)
  from sub full qb wr30 wr20 show ?thesis by blast
qed

theorem breakout_candidates_filter_witness:
  "get_dynasty_candidates sort_values_descending
      [receiver_20_targets, scored_quarterback, receiver_30_targets] ''breakout'' 8 30
     = [receiver_30_targets]
   \<and> breakout_conditions 8 receiver_30_targets
   \<and> \<not> breakout_conditions 8 receiver_20_targets
   \<and> \<not> breakout_conditions 8 scored_quarterback"
proof -
  let ?df = "[receiver_20_targets, scored_quarterback, receiver_30_targets]"
  let ?out = "get_dynasty_candidates sort_values_descending ?df ''breakout'' 8 30"
  have c30: "breakout_conditions 8 receiver_30_targets"
    by (simp add: breakout_conditions_def receiver_30_targets_def wr_a_def blank_row_def num_defs)
  have c20: "\<not> breakout_conditions 8 receiver_20_targets"
    by (simp add: breakout_conditions_def receiver_20_targets_def wr_a_def blank_row_def num_defs)
  have cqb: "\<not> breakout_conditions 8 scored_quarterback"
    by (simp add: breakout_conditions_def scored_quarterback_def wr_a_def blank_row_def num_defs)
  have ne: "receiver_30_targets \<noteq> receiver_20_targets"
    "receiver_30_targets \<noteq> scored_quarterback"
    using c30 c20 cqb by auto
  have "length ?df \<le> 30" by simp
  with breakout_candidates_filter [of sort_values_descending ?df 8 30, OF mset_sort_values_descending]
  have "set ?out = {s \<in> set ?df. breakout_conditions 8 s}" by blast
  with c30 c20 cqb have s: "set ?out = {receiver_30_targets}" by auto
  have "length ?out \<le> 1"
    by (simp add: get_dynasty_candidates_def Let_def breakout_filter_def
        sort_values_descending_def min_games_mask_def volume_mask_def
        receiver_30_targets_def receiver_20_targets_def scored_quarterback_def
        blank_composite_def wr_a_def blank_row_def num_defs)
  with s have "?out = [receiver_30_targets]"
    by (cases ?out) auto
  with c30 c20 cqb show ?thesis by simp
qed

end
